theory Spec2Isabelle
  imports Complex_Main "HOL-Library.AList"
begin

section \<open>ComplianceSync: the compliance data model and its consistency rules\<close>

text \<open>
  A shallow embedding of the Go packages \<^verbatim>\<open>models\<close>, \<^verbatim>\<open>store\<close> and \<^verbatim>\<open>api\<close>.
  Structs are records whose fields carry a short prefix of the struct's name
  (\<open>rq_\<close> Requirement, \<open>ev_\<close> Evidence, \<open>us_\<close> User, \<open>og_\<close> Organization,
  \<open>sb_\<close> Subscription, \<open>al_\<close> AuditLog, \<open>rp_\<close> Report, \<open>cl_\<close> UserClaims), since two
  records cannot share a field name. String-typed Go types (\<^verbatim>\<open>UserRole\<close>,
  \<^verbatim>\<open>EvidenceSource\<close>, \<^verbatim>\<open>RequirementCategory\<close>, ...) are \<open>string\<close>.

  \<^verbatim>\<open>time.Time\<close> is an instant counted in nanoseconds, \<^verbatim>\<open>time.Duration\<close> is Go's
  \<^verbatim>\<open>int64\<close> count of nanoseconds.
\<close>

subsection \<open>models: requirements\<close>

type_synonym Time = int
type_synonym Duration = int

type_synonym RequirementStatus = string

abbreviation StatusNotStarted :: RequirementStatus where "StatusNotStarted \<equiv> ''not_started''"
abbreviation StatusInProgress :: RequirementStatus where "StatusInProgress \<equiv> ''in_progress''"
abbreviation StatusCompliant :: RequirementStatus where "StatusCompliant \<equiv> ''compliant''"
abbreviation StatusAtRisk :: RequirementStatus where "StatusAtRisk \<equiv> ''at_risk''"
abbreviation StatusNonCompliant :: RequirementStatus where "StatusNonCompliant \<equiv> ''non_compliant''"

record RequirementTemplate =
  rt_ID :: string
  rt_Title :: string
  rt_Description :: string
  rt_Category :: string
  rt_RegulatoryFramework :: string
  rt_Authority :: string
  rt_EvidenceTypes :: "string list"
  rt_Frequency :: string
  rt_IsActive :: bool
  rt_CreatedAt :: Time
  rt_UpdatedAt :: Time

record Requirement =
  rq_ID :: string
  rq_OrganizationID :: string
  rq_TemplateID :: string
  rq_Title :: string
  rq_Description :: string
  rq_Category :: string
  rq_Authority :: string
  rq_EvidenceTypes :: "string list"
  rq_Frequency :: string
  rq_Status :: RequirementStatus
  rq_NextDueDate :: "Time option"
  rq_LastCompletedDate :: "Time option"
  rq_EvidenceCount :: int
  rq_Notes :: string
  rq_ActivatedAt :: Time
  rq_ActivatedBy :: string
  rq_UpdatedAt :: Time
  rq_UpdatedBy :: string
  rq_IsActive :: bool

text \<open>
  \<open>rq_EvidenceCount\<close> is Go's \<^verbatim>\<open>int\<close>, stored as a 64-bit integer. The code compares
  it with 0 and the store adds 1 or -1 to it; it is an unbounded integer here, the bounds
  of \<^verbatim>\<open>int64\<close> being out of reach of one-by-one counting.

  \<^verbatim>\<open>Time.Sub\<close>: the difference of two instants as a Duration; Go saturates it at the
  least and the greatest \<^verbatim>\<open>int64\<close>.
\<close>

definition minDuration :: Duration where
  "minDuration = - (2 ^ 63)"

definition maxDuration :: Duration where
  "maxDuration = 2 ^ 63 - 1"

definition Sub :: "Time \<Rightarrow> Time \<Rightarrow> Duration" where
  "Sub t u =
     (if t - u < minDuration then minDuration
      else if maxDuration < t - u then maxDuration
      else t - u)"

definition nanosPerDay :: int where
  "nanosPerDay = 24 * 60 * 60 * 1000000000"

text \<open>
  \<^verbatim>\<open>int(d.Hours() / 24)\<close>: the number of whole days in a Duration, rounded towards zero
  by the conversion to \<^verbatim>\<open>int\<close>. Go computes the quotient in \<^verbatim>\<open>float64\<close>, and the
  result is only compared (\<open>< 0\<close> and \<open>\<le> 7\<close>). The computed quotient grows with the
  Duration, it is exact at one day below zero and at eight days, and one nanosecond off
  these two Durations it is still several units in the last place away from \<open>-1\<close> and
  from \<open>8\<close>; so both comparisons come out as with the exact quotient used here.
\<close>

definition wholeDays :: "Duration \<Rightarrow> int" where
  "wholeDays d = (if d < 0 then - ((- d) div nanosPerDay) else d div nanosPerDay)"

text \<open>
  \<^verbatim>\<open>Requirement.CalculateStatus\<close>. The clock reading \<^verbatim>\<open>time.Now()\<close> is the
  argument \<open>now\<close>.
\<close>

definition CalculateStatus :: "Requirement \<Rightarrow> Time \<Rightarrow> RequirementStatus" where
  "CalculateStatus r now =
     (if rq_EvidenceCount r = 0 then StatusNotStarted
      else case rq_NextDueDate r of
        None \<Rightarrow>
          (if rq_EvidenceCount r > 0 then StatusCompliant else StatusNotStarted)
      | Some due \<Rightarrow>
          (let daysUntilDue = wholeDays (Sub due now)
           in if daysUntilDue < 0 then StatusNonCompliant
              else if daysUntilDue \<le> 7 then StatusAtRisk
              else if rq_EvidenceCount r > 0 then StatusCompliant
              else StatusInProgress))"

text \<open>A requirement as \<^verbatim>\<open>CreateRequirement\<close> leaves it, used in the examples below.\<close>

definition exampleRequirement :: Requirement where
  "exampleRequirement =
     \<lparr> rq_ID = ''r1'', rq_OrganizationID = ''acme'', rq_TemplateID = ''sec-ria-001'',
       rq_Title = ''Code of Ethics'', rq_Description = '''', rq_Category = ''policy_management'',
       rq_Authority = ''SEC Rule 204A-1'', rq_EvidenceTypes = [], rq_Frequency = ''annual'',
       rq_Status = StatusNotStarted, rq_NextDueDate = None, rq_LastCompletedDate = None,
       rq_EvidenceCount = 0, rq_Notes = '''', rq_ActivatedAt = 0, rq_ActivatedBy = ''u1'',
       rq_UpdatedAt = 0, rq_UpdatedBy = '''', rq_IsActive = True \<rparr>"

definition oneHour :: Duration where
  "oneHour = 60 * 60 * 1000000000"

subsection \<open>models: users, organizations, evidence\<close>

record User =
  us_UID :: string
  us_Email :: string
  us_FullName :: string
  us_OrganizationID :: string
  us_Role :: string
  us_Status :: string
  us_EmailVerified :: bool
  us_CreatedAt :: Time
  us_UpdatedAt :: Time
  us_LastLoginAt :: "Time option"

record Subscription =
  sb_Tier :: string
  sb_Status :: string
  sb_StripeCustomerID :: string
  sb_StripeSubscriptionID :: string
  sb_CurrentPeriodStart :: Time
  sb_CurrentPeriodEnd :: Time
  sb_CancelAtPeriodEnd :: bool
  sb_MaxUsers :: int
  sb_MonthlyPrice :: real

record Organization =
  og_ID :: string
  og_Name :: string
  og_Industry :: string
  og_EmployeeCount :: string
  og_RegulatoryFramework :: string
  og_Website :: string
  og_Address :: string
  og_Phone :: string
  og_Subscription :: Subscription
  og_CreatedAt :: Time
  og_UpdatedAt :: Time
  og_UpdatedBy :: string
  og_ActiveUserCount :: int

text \<open>The values a \<^verbatim>\<open>map[string]interface{}\<close> carries in the handlers below.\<close>

datatype JSON = JString string | JStrings "string list" | JObject "(string \<times> JSON) list"

abbreviation SourceManualUpload :: string where
  "SourceManualUpload \<equiv> ''manual_upload''"

record Evidence =
  ev_ID :: string
  ev_OrganizationID :: string
  ev_Title :: string
  ev_Description :: string
  ev_Source :: string
  ev_EvidenceDate :: Time
  ev_FileURL :: string
  ev_FileName :: string
  ev_FileSize :: int
  ev_FileType :: string
  ev_ExternalLink :: string
  ev_Metadata :: "(string \<times> JSON) list"
  ev_RequirementIDs :: "string list"
  ev_UploadedBy :: string
  ev_CreatedAt :: Time
  ev_UpdatedAt :: Time
  ev_Status :: string

subsection \<open>models: audit log entries and reports\<close>

text \<open>\<^verbatim>\<open>AuditAction\<close> is a string type with twenty constants.\<close>

type_synonym AuditAction = string

abbreviation ActionLogin :: AuditAction where "ActionLogin \<equiv> ''login''"
abbreviation ActionLogout :: AuditAction where "ActionLogout \<equiv> ''logout''"
abbreviation ActionUserCreated :: AuditAction where "ActionUserCreated \<equiv> ''user_created''"
abbreviation ActionUserUpdated :: AuditAction where "ActionUserUpdated \<equiv> ''user_updated''"
abbreviation ActionUserDeleted :: AuditAction where "ActionUserDeleted \<equiv> ''user_deleted''"
abbreviation ActionOrgCreated :: AuditAction where "ActionOrgCreated \<equiv> ''organization_created''"
abbreviation ActionOrgUpdated :: AuditAction where "ActionOrgUpdated \<equiv> ''organization_updated''"
abbreviation ActionRequirementActivated :: AuditAction where "ActionRequirementActivated \<equiv> ''requirement_activated''"
abbreviation ActionRequirementUpdated :: AuditAction where "ActionRequirementUpdated \<equiv> ''requirement_updated''"
abbreviation ActionRequirementDeactivated :: AuditAction where "ActionRequirementDeactivated \<equiv> ''requirement_deactivated''"
abbreviation ActionEvidenceCreated :: AuditAction where "ActionEvidenceCreated \<equiv> ''evidence_created''"
abbreviation ActionEvidenceUpdated :: AuditAction where "ActionEvidenceUpdated \<equiv> ''evidence_updated''"
abbreviation ActionEvidenceDeleted :: AuditAction where "ActionEvidenceDeleted \<equiv> ''evidence_deleted''"
abbreviation ActionEvidenceViewed :: AuditAction where "ActionEvidenceViewed \<equiv> ''evidence_viewed''"
abbreviation ActionEvidenceDownloaded :: AuditAction where "ActionEvidenceDownloaded \<equiv> ''evidence_downloaded''"
abbreviation ActionReportGenerated :: AuditAction where "ActionReportGenerated \<equiv> ''report_generated''"
abbreviation ActionIntegrationConnected :: AuditAction where "ActionIntegrationConnected \<equiv> ''integration_connected''"
abbreviation ActionIntegrationDisconnected :: AuditAction where "ActionIntegrationDisconnected \<equiv> ''integration_disconnected''"
abbreviation ActionSubscriptionUpdated :: AuditAction where "ActionSubscriptionUpdated \<equiv> ''subscription_updated''"
abbreviation ActionPaymentMethodUpdated :: AuditAction where "ActionPaymentMethodUpdated \<equiv> ''payment_method_updated''"

record AuditLog =
  al_ID :: string
  al_OrganizationID :: string
  al_Timestamp :: Time
  al_UserID :: string
  al_UserEmail :: string
  al_Action :: AuditAction
  al_ResourceType :: string
  al_ResourceID :: string
  al_Description :: string
  al_Changes :: "(string \<times> JSON) list"
  al_IPAddress :: string
  al_UserAgent :: string
  al_Metadata :: "(string \<times> JSON) list"

record Report =
  rp_ID :: string
  rp_OrganizationID :: string
  rp_Title :: string
  rp_Description :: string
  rp_Type :: string
  rp_RequirementIDs :: "string list"
  rp_Status :: string
  rp_FileURL :: string
  rp_GeneratedBy :: string
  rp_CreatedAt :: Time
  rp_CompletedAt :: "Time option"
  rp_ErrorMessage :: string

subsection \<open>auth: the verified claims of a request\<close>

record UserClaims =
  cl_UID :: string
  cl_Email :: string
  cl_EmailVerified :: bool
  cl_OrganizationID :: string
  cl_Role :: string

subsection \<open>store: the document store\<close>

text \<open>
  A Firestore collection is an association list from document paths to documents. The
  collections \<^verbatim>\<open>users\<close>, \<^verbatim>\<open>organizations\<close> and \<^verbatim>\<open>requirement_templates\<close> are
  top-level, keyed by the document id; \<^verbatim>\<open>requirements\<close>, \<^verbatim>\<open>evidence\<close>,
  \<^verbatim>\<open>audit_logs\<close> and \<^verbatim>\<open>reports\<close> are sub-collections of an organization, keyed by
  the pair of the organization id and the document id.

  The store answers every call: \<^verbatim>\<open>Get\<close> and \<^verbatim>\<open>Update\<close> fail on a missing document
  and on nothing else, \<^verbatim>\<open>Set\<close> never fails, a stored document always parses back into
  its struct. The functions of \<^verbatim>\<open>FirestoreStore\<close> keep their error results
  (\<open>Inl\<close> the message), so the handlers keep every branch they have in Go.
\<close>

type_synonym OrgPath = "string \<times> string"

record Store =
  st_organizations :: "(string \<times> Organization) list"
  st_users :: "(string \<times> User) list"
  st_requirement_templates :: "(string \<times> RequirementTemplate) list"
  st_requirements :: "(OrgPath \<times> Requirement) list"
  st_evidence :: "(OrgPath \<times> Evidence) list"
  st_audit_logs :: "(OrgPath \<times> AuditLog) list"
  st_reports :: "(OrgPath \<times> Report) list"

definition docGet :: "('k \<times> 'v) list \<Rightarrow> 'k \<Rightarrow> 'v option" where
  "docGet c k = map_of c k"

definition docSet :: "('k \<times> 'v) list \<Rightarrow> 'k \<Rightarrow> 'v \<Rightarrow> ('k \<times> 'v) list" where
  "docSet c k v = AList.update k v c"

definition docUpdate :: "('k \<times> 'v) list \<Rightarrow> 'k \<Rightarrow> ('v \<Rightarrow> 'v) \<Rightarrow> ('k \<times> 'v) list option" where
  "docUpdate c k f =
     (case map_of c k of
        None \<Rightarrow> None
      | Some v \<Rightarrow> Some (AList.update k (f v) c))"

text \<open>The documents of one organization's sub-collection that a query selects.\<close>

definition subDocuments :: "(OrgPath \<times> 'v) list \<Rightarrow> string \<Rightarrow> ('v \<Rightarrow> bool) \<Rightarrow> 'v list" where
  "subDocuments c orgID P = map snd (filter (\<lambda>kv. fst (fst kv) = orgID \<and> P (snd kv)) c)"

text \<open>
  What a request reads from outside the store: the clock (every \<^verbatim>\<open>time.Now()\<close> of one
  request returns \<open>env_now\<close>), the two identifiers \<^verbatim>\<open>uuid.New()\<close> yields (for the
  document created and for the audit entry), the verdict of \<^verbatim>\<open>storage.SignedURL\<close> and
  whether the identity provider refuses \<^verbatim>\<open>DeleteUser\<close>.
\<close>

record Env =
  env_now :: Time
  env_uuid :: string
  env_log_uuid :: string
  env_SignedURL :: "string option"
  env_DeleteUser_fails :: bool

subsection \<open>store: the methods of FirestoreStore\<close>

definition GetOrganization :: "Store \<Rightarrow> string \<Rightarrow> string + Organization" where
  "GetOrganization s orgID =
     (case docGet (st_organizations s) orgID of
        None \<Rightarrow> Inl ''failed to get organization''
      | Some org \<Rightarrow> Inr org)"

definition UpdateOrganization :: "Time \<Rightarrow> Store \<Rightarrow> Organization \<Rightarrow> string + Store \<times> Organization" where
  "UpdateOrganization now s org =
     (let org = org\<lparr>og_UpdatedAt := now\<rparr>
      in Inr (s\<lparr>st_organizations := docSet (st_organizations s) (og_ID org) org\<rparr>, org))"

definition GetUser :: "Store \<Rightarrow> string \<Rightarrow> string + User" where
  "GetUser s uid =
     (case docGet (st_users s) uid of
        None \<Rightarrow> Inl ''failed to get user''
      | Some user \<Rightarrow> Inr user)"

definition UpdateUser :: "Time \<Rightarrow> Store \<Rightarrow> User \<Rightarrow> string + Store \<times> User" where
  "UpdateUser now s user =
     (let user = user\<lparr>us_UpdatedAt := now\<rparr>
      in Inr (s\<lparr>st_users := docSet (st_users s) (us_UID user) user\<rparr>, user))"

definition ListUsersByOrganization :: "Store \<Rightarrow> string \<Rightarrow> string + User list" where
  "ListUsersByOrganization s orgID =
     Inr (map snd (filter (\<lambda>kv. us_OrganizationID (snd kv) = orgID) (st_users s)))"

definition CreateRequirement :: "string \<Rightarrow> Time \<Rightarrow> Store \<Rightarrow> Requirement \<Rightarrow> string + Store \<times> Requirement" where
  "CreateRequirement uuid now s req =
     (let req = req\<lparr>rq_ID := uuid, rq_ActivatedAt := now, rq_UpdatedAt := now,
                    rq_Status := StatusNotStarted, rq_EvidenceCount := 0, rq_IsActive := True\<rparr>
      in Inr (s\<lparr>st_requirements :=
                  docSet (st_requirements s) (rq_OrganizationID req, rq_ID req) req\<rparr>, req))"

definition GetRequirement :: "Store \<Rightarrow> string \<Rightarrow> string \<Rightarrow> string + Requirement" where
  "GetRequirement s orgID reqID =
     (case docGet (st_requirements s) (orgID, reqID) of
        None \<Rightarrow> Inl ''failed to get requirement''
      | Some req \<Rightarrow> Inr req)"

definition ListRequirements :: "Store \<Rightarrow> string \<Rightarrow> string + Requirement list" where
  "ListRequirements s orgID = Inr (subDocuments (st_requirements s) orgID rq_IsActive)"

definition UpdateRequirement :: "Time \<Rightarrow> Store \<Rightarrow> Requirement \<Rightarrow> string + Store \<times> Requirement" where
  "UpdateRequirement now s req =
     (let req = req\<lparr>rq_UpdatedAt := now\<rparr>
      in Inr (s\<lparr>st_requirements :=
                  docSet (st_requirements s) (rq_OrganizationID req, rq_ID req) req\<rparr>, req))"

text \<open>
  The helper methods: \<^verbatim>\<open>firestore.Increment(1)\<close> and \<^verbatim>\<open>firestore.Increment(-1)\<close> on
  the field \<^verbatim>\<open>evidence_count\<close>, an addition the store performs on the stored number.
\<close>

definition incrementRequirementEvidenceCount :: "Time \<Rightarrow> Store \<Rightarrow> string \<Rightarrow> string \<Rightarrow> string + Store" where
  "incrementRequirementEvidenceCount now s orgID reqID =
     (case docUpdate (st_requirements s) (orgID, reqID)
             (\<lambda>r. r\<lparr>rq_EvidenceCount := rq_EvidenceCount r + 1, rq_UpdatedAt := now\<rparr>) of
        None \<Rightarrow> Inl ''not found''
      | Some c \<Rightarrow> Inr (s\<lparr>st_requirements := c\<rparr>))"

definition decrementRequirementEvidenceCount :: "Time \<Rightarrow> Store \<Rightarrow> string \<Rightarrow> string \<Rightarrow> string + Store" where
  "decrementRequirementEvidenceCount now s orgID reqID =
     (case docUpdate (st_requirements s) (orgID, reqID)
             (\<lambda>r. r\<lparr>rq_EvidenceCount := rq_EvidenceCount r + (- 1), rq_UpdatedAt := now\<rparr>) of
        None \<Rightarrow> Inl ''not found''
      | Some c \<Rightarrow> Inr (s\<lparr>st_requirements := c\<rparr>))"

text \<open>
  The loops over \<^verbatim>\<open>evidence.RequirementIDs\<close> in \<^verbatim>\<open>CreateEvidence\<close> and
  \<^verbatim>\<open>DeleteEvidence\<close>: a failed adjustment is printed and the loop goes on.
\<close>

fun incrementEach :: "Time \<Rightarrow> Store \<Rightarrow> string \<Rightarrow> string list \<Rightarrow> Store" where
  "incrementEach now s orgID [] = s"
| "incrementEach now s orgID (reqID # rest) =
     (case incrementRequirementEvidenceCount now s orgID reqID of
        Inl err \<Rightarrow> incrementEach now s orgID rest
      | Inr s' \<Rightarrow> incrementEach now s' orgID rest)"

fun decrementEach :: "Time \<Rightarrow> Store \<Rightarrow> string \<Rightarrow> string list \<Rightarrow> Store" where
  "decrementEach now s orgID [] = s"
| "decrementEach now s orgID (reqID # rest) =
     (case decrementRequirementEvidenceCount now s orgID reqID of
        Inl err \<Rightarrow> decrementEach now s orgID rest
      | Inr s' \<Rightarrow> decrementEach now s' orgID rest)"

definition CreateEvidence :: "string \<Rightarrow> Time \<Rightarrow> Store \<Rightarrow> Evidence \<Rightarrow> string + Store \<times> Evidence" where
  "CreateEvidence uuid now s evidence =
     (let evidence = evidence\<lparr>ev_ID := uuid, ev_CreatedAt := now, ev_UpdatedAt := now\<rparr>;
          s1 = s\<lparr>st_evidence :=
                   docSet (st_evidence s) (ev_OrganizationID evidence, ev_ID evidence) evidence\<rparr>
      in Inr (incrementEach now s1 (ev_OrganizationID evidence) (ev_RequirementIDs evidence),
              evidence))"

definition GetEvidence :: "Store \<Rightarrow> string \<Rightarrow> string \<Rightarrow> string + Evidence" where
  "GetEvidence s orgID evidenceID =
     (case docGet (st_evidence s) (orgID, evidenceID) of
        None \<Rightarrow> Inl ''failed to get evidence''
      | Some evidence \<Rightarrow> Inr evidence)"

text \<open>
  \<^verbatim>\<open>ListEvidence\<close>: each entry of \<^verbatim>\<open>filters\<close> adds an equality clause to the query;
  a clause is the predicate it puts on a document.
\<close>

definition ListEvidence :: "Store \<Rightarrow> string \<Rightarrow> (Evidence \<Rightarrow> bool) list \<Rightarrow> string + Evidence list" where
  "ListEvidence s orgID filters =
     Inr (subDocuments (st_evidence s) orgID
            (\<lambda>e. ev_Status e = ''active'' \<and> list_all (\<lambda>p. p e) filters))"

definition UpdateEvidence :: "Time \<Rightarrow> Store \<Rightarrow> Evidence \<Rightarrow> string + Store \<times> Evidence" where
  "UpdateEvidence now s evidence =
     (let evidence = evidence\<lparr>ev_UpdatedAt := now\<rparr>
      in Inr (s\<lparr>st_evidence :=
                  docSet (st_evidence s) (ev_OrganizationID evidence, ev_ID evidence) evidence\<rparr>,
              evidence))"

definition DeleteEvidence :: "Time \<Rightarrow> Store \<Rightarrow> string \<Rightarrow> string \<Rightarrow> string + Store" where
  "DeleteEvidence now s orgID evidenceID =
     (case GetEvidence s orgID evidenceID of
        Inl err \<Rightarrow> Inl err
      | Inr evidence \<Rightarrow>
          (case docUpdate (st_evidence s) (orgID, evidenceID)
                  (\<lambda>e. e\<lparr>ev_Status := ''deleted'', ev_UpdatedAt := now\<rparr>) of
             None \<Rightarrow> Inl ''failed to delete evidence''
           | Some c \<Rightarrow>
               Inr (decrementEach now (s\<lparr>st_evidence := c\<rparr>) orgID (ev_RequirementIDs evidence))))"

definition CreateAuditLog :: "string \<Rightarrow> Time \<Rightarrow> Store \<Rightarrow> AuditLog \<Rightarrow> string + Store" where
  "CreateAuditLog uuid now s auditLog =
     (let auditLog = auditLog\<lparr>al_ID := uuid, al_Timestamp := now\<rparr>
      in Inr (s\<lparr>st_audit_logs :=
                  docSet (st_audit_logs s) (al_OrganizationID auditLog, al_ID auditLog)
                    auditLog\<rparr>))"

definition CreateReport :: "string \<Rightarrow> Time \<Rightarrow> Store \<Rightarrow> Report \<Rightarrow> string + Store \<times> Report" where
  "CreateReport uuid now s report =
     (let report = report\<lparr>rp_ID := uuid, rp_CreatedAt := now\<rparr>
      in Inr (s\<lparr>st_reports :=
                  docSet (st_reports s) (rp_OrganizationID report, rp_ID report) report\<rparr>, report))"

definition GetReport :: "Store \<Rightarrow> string \<Rightarrow> string \<Rightarrow> string + Report" where
  "GetReport s orgID reportID =
     (case docGet (st_reports s) (orgID, reportID) of
        None \<Rightarrow> Inl ''failed to get report''
      | Some report \<Rightarrow> Inr report)"

definition GetRequirementTemplate :: "Store \<Rightarrow> string \<Rightarrow> string + RequirementTemplate" where
  "GetRequirementTemplate s templateID =
     (case docGet (st_requirement_templates s) templateID of
        None \<Rightarrow> Inl ''failed to get requirement template''
      | Some template \<Rightarrow> Inr template)"

subsection \<open>api: requests, responses, middleware\<close>

text \<open>
  A request as a handler sees it: the claims the authentication middleware left in the
  context (\<open>None\<close> when \<^verbatim>\<open>GetUserClaims\<close> fails), the remote address and the user
  agent. URL parameters and the decoded JSON body are arguments of each handler; a body
  that does not decode is \<open>None\<close>.
\<close>

record Ctx =
  ctx_claims :: "UserClaims option"
  ctx_RemoteAddr :: string
  ctx_UserAgent :: string

datatype Body =
    ErrorBody string
  | MessageBody string
  | EvidenceBody Evidence
  | EvidenceListBody "Evidence list"
  | RequirementBody Requirement
  | UserBody User
  | OrganizationBody Organization
  | ReportBody Report
  | DownloadURLBody string Time

type_synonym Response = "nat \<times> Body"

type_synonym Handler = "Store \<Rightarrow> Ctx \<Rightarrow> Store \<times> Response"

abbreviation StatusOK :: nat where "StatusOK \<equiv> 200"
abbreviation StatusCreated :: nat where "StatusCreated \<equiv> 201"
abbreviation StatusAccepted :: nat where "StatusAccepted \<equiv> 202"
abbreviation StatusBadRequest :: nat where "StatusBadRequest \<equiv> 400"
abbreviation StatusUnauthorized :: nat where "StatusUnauthorized \<equiv> 401"
abbreviation StatusForbidden :: nat where "StatusForbidden \<equiv> 403"
abbreviation StatusNotFound :: nat where "StatusNotFound \<equiv> 404"
abbreviation StatusInternalServerError :: nat where "StatusInternalServerError \<equiv> 500"

definition respondJSON :: "nat \<Rightarrow> Body \<Rightarrow> Response" where
  "respondJSON status data = (status, data)"

definition respondError :: "nat \<Rightarrow> string \<Rightarrow> Response" where
  "respondError status message = respondJSON status (ErrorBody message)"

definition requireAdmin :: "Handler \<Rightarrow> Handler" where
  "requireAdmin next s ctx =
     (case ctx_claims ctx of
        None \<Rightarrow> (s, respondError StatusUnauthorized ''authentication required'')
      | Some claims \<Rightarrow>
          if cl_Role claims \<noteq> ''admin''
          then (s, respondError StatusForbidden ''admin role required'')
          else next s ctx)"

definition requireWrite :: "Handler \<Rightarrow> Handler" where
  "requireWrite next s ctx =
     (case ctx_claims ctx of
        None \<Rightarrow> (s, respondError StatusUnauthorized ''authentication required'')
      | Some claims \<Rightarrow>
          if cl_Role claims \<noteq> ''admin'' \<and> cl_Role claims \<noteq> ''compliance_officer''
          then (s, respondError StatusForbidden ''write permission required'')
          else next s ctx)"

text \<open>
  The struct literal \<^verbatim>\<open>&models.AuditLog{...}\<close> of the handlers: the fields every
  handler names get the values given, the others are Go's zero values.
\<close>

definition auditLogLiteral ::
  "UserClaims \<Rightarrow> string \<Rightarrow> AuditAction \<Rightarrow> string \<Rightarrow> string \<Rightarrow> string \<Rightarrow> Ctx \<Rightarrow> AuditLog" where
  "auditLogLiteral claims orgID action resourceType resourceID description ctx =
     \<lparr> al_ID = '''', al_OrganizationID = orgID, al_Timestamp = 0,
       al_UserID = cl_UID claims, al_UserEmail = cl_Email claims, al_Action = action,
       al_ResourceType = resourceType, al_ResourceID = resourceID,
       al_Description = description, al_Changes = [],
       al_IPAddress = ctx_RemoteAddr ctx, al_UserAgent = ctx_UserAgent ctx,
       al_Metadata = [] \<rparr>"

text \<open>The statement \<^verbatim>\<open>s.store.CreateAuditLog(r.Context(), auditLog)\<close>, its error dropped.\<close>

definition callCreateAuditLog :: "Env \<Rightarrow> Store \<Rightarrow> AuditLog \<Rightarrow> Store" where
  "callCreateAuditLog env s auditLog =
     (case CreateAuditLog (env_log_uuid env) (env_now env) s auditLog of
        Inl err \<Rightarrow> s
      | Inr s' \<Rightarrow> s')"

subsection \<open>api: evidence handlers\<close>

text \<open>
  The body of \<^verbatim>\<open>POST /evidence\<close>. \<open>cer_EvidenceDate\<close> is the field
  \<^verbatim>\<open>evidence_date\<close> as \<^verbatim>\<open>time.Parse(time.RFC3339, _)\<close> reads it: \<open>None\<close> when the
  string is not a date.
\<close>

record CreateEvidenceRequest =
  cer_EvidenceID :: string
  cer_Title :: string
  cer_Description :: string
  cer_EvidenceDate :: "Time option"
  cer_RequirementIDs :: "string list"

definition handleCreateEvidence :: "Env \<Rightarrow> CreateEvidenceRequest option \<Rightarrow> Handler" where
  "handleCreateEvidence env body s ctx =
     (case ctx_claims ctx of
        None \<Rightarrow> (s, respondError StatusUnauthorized ''authentication required'')
      | Some claims \<Rightarrow>
     (case body of
        None \<Rightarrow> (s, respondError StatusBadRequest ''invalid request body'')
      | Some req \<Rightarrow>
     (case cer_EvidenceDate req of
        None \<Rightarrow> (s, respondError StatusBadRequest ''invalid evidence date format'')
      | Some evidenceDate \<Rightarrow>
     (case GetEvidence s (cl_OrganizationID claims) (cer_EvidenceID req) of
        Inl err \<Rightarrow> (s, respondError StatusNotFound ''evidence not found'')
      | Inr evidence \<Rightarrow>
     (let evidence = evidence\<lparr>ev_Title := cer_Title req,
                              ev_Description := cer_Description req,
                              ev_EvidenceDate := evidenceDate,
                              ev_RequirementIDs := cer_RequirementIDs req,
                              ev_Source := SourceManualUpload,
                              ev_Status := ''active''\<rparr>
      in case UpdateEvidence (env_now env) s evidence of
           Inl err \<Rightarrow>
             (s, respondError StatusInternalServerError ''failed to complete evidence upload'')
         | Inr (s1, evidence) \<Rightarrow>
             (let auditLog = auditLogLiteral claims (cl_OrganizationID claims)
                               ActionEvidenceCreated ''evidence'' (ev_ID evidence)
                               (''Uploaded evidence: '' @ ev_Title evidence) ctx
              in (callCreateAuditLog env s1 auditLog,
                  respondJSON StatusCreated (EvidenceBody evidence))))))))"

text \<open>\<open>source\<close> is the query parameter of that name, empty when absent.\<close>

definition handleListEvidence :: "string \<Rightarrow> Handler" where
  "handleListEvidence source s ctx =
     (case ctx_claims ctx of
        None \<Rightarrow> (s, respondError StatusUnauthorized ''authentication required'')
      | Some claims \<Rightarrow>
     (let filters = (if source \<noteq> '''' then [\<lambda>e. ev_Source e = source] else [])
      in case ListEvidence s (cl_OrganizationID claims) filters of
           Inl err \<Rightarrow> (s, respondError StatusInternalServerError ''failed to get evidence'')
         | Inr evidence \<Rightarrow> (s, respondJSON StatusOK (EvidenceListBody evidence))))"

definition handleGetEvidence :: "Env \<Rightarrow> string \<Rightarrow> Handler" where
  "handleGetEvidence env evidenceID s ctx =
     (case ctx_claims ctx of
        None \<Rightarrow> (s, respondError StatusUnauthorized ''authentication required'')
      | Some claims \<Rightarrow>
     (case GetEvidence s (cl_OrganizationID claims) evidenceID of
        Inl err \<Rightarrow> (s, respondError StatusNotFound ''evidence not found'')
      | Inr evidence \<Rightarrow>
     (let auditLog = auditLogLiteral claims (cl_OrganizationID claims)
                       ActionEvidenceViewed ''evidence'' (ev_ID evidence)
                       (''Viewed evidence: '' @ ev_Title evidence) ctx
      in (callCreateAuditLog env s auditLog, respondJSON StatusOK (EvidenceBody evidence)))))"

record UpdateEvidenceRequest =
  uer_Title :: string
  uer_Description :: string
  uer_RequirementIDs :: "string list"

definition handleUpdateEvidence :: "Env \<Rightarrow> string \<Rightarrow> UpdateEvidenceRequest option \<Rightarrow> Handler" where
  "handleUpdateEvidence env evidenceID body s ctx =
     (case ctx_claims ctx of
        None \<Rightarrow> (s, respondError StatusUnauthorized ''authentication required'')
      | Some claims \<Rightarrow>
     (case body of
        None \<Rightarrow> (s, respondError StatusBadRequest ''invalid request body'')
      | Some req \<Rightarrow>
     (case GetEvidence s (cl_OrganizationID claims) evidenceID of
        Inl err \<Rightarrow> (s, respondError StatusNotFound ''evidence not found'')
      | Inr evidence \<Rightarrow>
     (let oldRequirements = ev_RequirementIDs evidence;
          evidence = evidence\<lparr>ev_Title := uer_Title req,
                              ev_Description := uer_Description req,
                              ev_RequirementIDs := uer_RequirementIDs req\<rparr>
      in case UpdateEvidence (env_now env) s evidence of
           Inl err \<Rightarrow> (s, respondError StatusInternalServerError ''failed to update evidence'')
         | Inr (s1, evidence) \<Rightarrow>
             (let auditLog = (auditLogLiteral claims (cl_OrganizationID claims)
                                ActionEvidenceUpdated ''evidence'' (ev_ID evidence)
                                (''Updated evidence: '' @ ev_Title evidence) ctx)
                               \<lparr>al_Changes :=
                                  [(''requirement_ids'',
                                    JObject [(''from'', JStrings oldRequirements),
                                             (''to'', JStrings (uer_RequirementIDs req))])]\<rparr>
              in (callCreateAuditLog env s1 auditLog,
                  respondJSON StatusOK (EvidenceBody evidence)))))))"

definition handleDeleteEvidence :: "Env \<Rightarrow> string \<Rightarrow> Handler" where
  "handleDeleteEvidence env evidenceID s ctx =
     (case ctx_claims ctx of
        None \<Rightarrow> (s, respondError StatusUnauthorized ''authentication required'')
      | Some claims \<Rightarrow>
     (case GetEvidence s (cl_OrganizationID claims) evidenceID of
        Inl err \<Rightarrow> (s, respondError StatusNotFound ''evidence not found'')
      | Inr evidence \<Rightarrow>
     (case DeleteEvidence (env_now env) s (cl_OrganizationID claims) evidenceID of
        Inl err \<Rightarrow> (s, respondError StatusInternalServerError ''failed to delete evidence'')
      | Inr s1 \<Rightarrow>
     (let auditLog = (auditLogLiteral claims (cl_OrganizationID claims)
                        ActionEvidenceDeleted ''evidence'' (ev_ID evidence)
                        (''Deleted evidence: '' @ ev_Title evidence) ctx)
                       \<lparr>al_Metadata :=
                          [(''requirement_ids'', JStrings (ev_RequirementIDs evidence))]\<rparr>
      in (callCreateAuditLog env s1 auditLog,
          respondJSON StatusOK (MessageBody ''evidence deleted successfully''))))))"

definition handleGenerateDownloadURL :: "Env \<Rightarrow> string \<Rightarrow> Handler" where
  "handleGenerateDownloadURL env evidenceID s ctx =
     (case ctx_claims ctx of
        None \<Rightarrow> (s, respondError StatusUnauthorized ''authentication required'')
      | Some claims \<Rightarrow>
     (case GetEvidence s (cl_OrganizationID claims) evidenceID of
        Inl err \<Rightarrow> (s, respondError StatusNotFound ''evidence not found'')
      | Inr evidence \<Rightarrow>
     (let expiresAt = env_now env + oneHour
      in case env_SignedURL env of
           None \<Rightarrow>
             (s, respondError StatusInternalServerError ''failed to generate download URL'')
         | Some url \<Rightarrow>
             (let auditLog = auditLogLiteral claims (cl_OrganizationID claims)
                               ActionEvidenceDownloaded ''evidence'' (ev_ID evidence)
                               (''Downloaded evidence: '' @ ev_Title evidence) ctx
              in (callCreateAuditLog env s auditLog,
                  respondJSON StatusOK (DownloadURLBody url expiresAt))))))"

subsection \<open>api: requirement handlers\<close>

record CreateRequirementRequest =
  crr_TemplateID :: string
  crr_Notes :: string

definition handleCreateRequirement :: "Env \<Rightarrow> CreateRequirementRequest option \<Rightarrow> Handler" where
  "handleCreateRequirement env body s ctx =
     (case ctx_claims ctx of
        None \<Rightarrow> (s, respondError StatusUnauthorized ''authentication required'')
      | Some claims \<Rightarrow>
     (case body of
        None \<Rightarrow> (s, respondError StatusBadRequest ''invalid request body'')
      | Some req \<Rightarrow>
     (case GetRequirementTemplate s (crr_TemplateID req) of
        Inl err \<Rightarrow> (s, respondError StatusNotFound ''requirement template not found'')
      | Inr template \<Rightarrow>
     (let requirement =
            \<lparr> rq_ID = '''', rq_OrganizationID = cl_OrganizationID claims,
              rq_TemplateID = rt_ID template, rq_Title = rt_Title template,
              rq_Description = rt_Description template, rq_Category = rt_Category template,
              rq_Authority = rt_Authority template,
              rq_EvidenceTypes = rt_EvidenceTypes template,
              rq_Frequency = rt_Frequency template, rq_Status = '''',
              rq_NextDueDate = None, rq_LastCompletedDate = None, rq_EvidenceCount = 0,
              rq_Notes = crr_Notes req, rq_ActivatedAt = 0, rq_ActivatedBy = cl_UID claims,
              rq_UpdatedAt = 0, rq_UpdatedBy = '''', rq_IsActive = False \<rparr>
      in case CreateRequirement (env_uuid env) (env_now env) s requirement of
           Inl err \<Rightarrow>
             (s, respondError StatusInternalServerError ''failed to activate requirement'')
         | Inr (s1, requirement) \<Rightarrow>
             (let auditLog = auditLogLiteral claims (cl_OrganizationID claims)
                               ActionRequirementActivated ''requirement'' (rq_ID requirement)
                               (''Activated requirement: '' @ rq_Title requirement) ctx
              in (callCreateAuditLog env s1 auditLog,
                  respondJSON StatusCreated (RequirementBody requirement)))))))"

definition handleGetRequirement :: "Env \<Rightarrow> string \<Rightarrow> Handler" where
  "handleGetRequirement env requirementID s ctx =
     (case ctx_claims ctx of
        None \<Rightarrow> (s, respondError StatusUnauthorized ''authentication required'')
      | Some claims \<Rightarrow>
     (case GetRequirement s (cl_OrganizationID claims) requirementID of
        Inl err \<Rightarrow> (s, respondError StatusNotFound ''requirement not found'')
      | Inr requirement \<Rightarrow>
     (let requirement = requirement\<lparr>rq_Status := CalculateStatus requirement (env_now env)\<rparr>
      in (s, respondJSON StatusOK (RequirementBody requirement)))))"

text \<open>
  The body of \<^verbatim>\<open>PUT /requirements/{requirementID}\<close>: \<^verbatim>\<open>next_due_date\<close> is an optional
  string (ISO 8601 by its comment), \<^verbatim>\<open>status\<close> a string.
\<close>

record UpdateRequirementRequest =
  urr_Notes :: string
  urr_NextDueDate :: "string option"
  urr_Status :: string

definition handleUpdateRequirement :: "Env \<Rightarrow> string \<Rightarrow> UpdateRequirementRequest option \<Rightarrow> Handler" where
  "handleUpdateRequirement env requirementID body s ctx =
     (case ctx_claims ctx of
        None \<Rightarrow> (s, respondError StatusUnauthorized ''authentication required'')
      | Some claims \<Rightarrow>
     (case body of
        None \<Rightarrow> (s, respondError StatusBadRequest ''invalid request body'')
      | Some req \<Rightarrow>
     (case GetRequirement s (cl_OrganizationID claims) requirementID of
        Inl err \<Rightarrow> (s, respondError StatusNotFound ''requirement not found'')
      | Inr requirement \<Rightarrow>
     (let requirement = requirement\<lparr>rq_Notes := urr_Notes req, rq_UpdatedBy := cl_UID claims\<rparr>
      in case UpdateRequirement (env_now env) s requirement of
           Inl err \<Rightarrow>
             (s, respondError StatusInternalServerError ''failed to update requirement'')
         | Inr (s1, requirement) \<Rightarrow>
             (let auditLog = auditLogLiteral claims (cl_OrganizationID claims)
                               ActionRequirementUpdated ''requirement'' (rq_ID requirement)
                               (''Updated requirement: '' @ rq_Title requirement) ctx
              in (callCreateAuditLog env s1 auditLog,
                  respondJSON StatusOK (RequirementBody requirement)))))))"

definition handleDeactivateRequirement :: "Env \<Rightarrow> string \<Rightarrow> Handler" where
  "handleDeactivateRequirement env requirementID s ctx =
     (case ctx_claims ctx of
        None \<Rightarrow> (s, respondError StatusUnauthorized ''authentication required'')
      | Some claims \<Rightarrow>
     (case GetRequirement s (cl_OrganizationID claims) requirementID of
        Inl err \<Rightarrow> (s, respondError StatusNotFound ''requirement not found'')
      | Inr requirement \<Rightarrow>
     (let requirement = requirement\<lparr>rq_IsActive := False, rq_UpdatedBy := cl_UID claims\<rparr>
      in case UpdateRequirement (env_now env) s requirement of
           Inl err \<Rightarrow>
             (s, respondError StatusInternalServerError ''failed to deactivate requirement'')
         | Inr (s1, requirement) \<Rightarrow>
             (let auditLog = auditLogLiteral claims (cl_OrganizationID claims)
                               ActionRequirementDeactivated ''requirement'' (rq_ID requirement)
                               (''Deactivated requirement: '' @ rq_Title requirement) ctx
              in (callCreateAuditLog env s1 auditLog,
                  respondJSON StatusOK (MessageBody ''requirement deactivated successfully''))))))"

subsection \<open>api: reports\<close>

record GenerateReportRequest =
  grr_Type :: string
  grr_RequirementIDs :: "string list"
  grr_Title :: string
  grr_Description :: string

definition handleGenerateReport :: "Env \<Rightarrow> GenerateReportRequest option \<Rightarrow> Handler" where
  "handleGenerateReport env body s ctx =
     (case ctx_claims ctx of
        None \<Rightarrow> (s, respondError StatusUnauthorized ''authentication required'')
      | Some claims \<Rightarrow>
     (case body of
        None \<Rightarrow> (s, respondError StatusBadRequest ''invalid request body'')
      | Some req \<Rightarrow>
     (if grr_Type req \<noteq> ''requirement_detail'' \<and> grr_Type req \<noteq> ''comprehensive''
      then (s, respondError StatusBadRequest ''invalid report type'')
      else
     (let report =
            \<lparr> rp_ID = '''', rp_OrganizationID = cl_OrganizationID claims,
              rp_Title = grr_Title req, rp_Description = grr_Description req,
              rp_Type = grr_Type req, rp_RequirementIDs = grr_RequirementIDs req,
              rp_Status = ''pending'', rp_FileURL = '''', rp_GeneratedBy = cl_UID claims,
              rp_CreatedAt = 0, rp_CompletedAt = None, rp_ErrorMessage = '''' \<rparr>
      in case CreateReport (env_uuid env) (env_now env) s report of
           Inl err \<Rightarrow> (s, respondError StatusInternalServerError ''failed to create report'')
         | Inr (s1, report) \<Rightarrow>
             (let auditLog = auditLogLiteral claims (cl_OrganizationID claims)
                               ActionReportGenerated ''report'' (rp_ID report)
                               (''Generated '' @ grr_Type req @ '' report: '' @ grr_Title req) ctx
              in (callCreateAuditLog env s1 auditLog,
                  respondJSON StatusAccepted (ReportBody report)))))))"

definition handleGetReport :: "string \<Rightarrow> Handler" where
  "handleGetReport reportID s ctx =
     (case ctx_claims ctx of
        None \<Rightarrow> (s, respondError StatusUnauthorized ''authentication required'')
      | Some claims \<Rightarrow>
     (case GetReport s (cl_OrganizationID claims) reportID of
        Inl err \<Rightarrow> (s, respondError StatusNotFound ''report not found'')
      | Inr report \<Rightarrow> (s, respondJSON StatusOK (ReportBody report))))"

definition handleGetReportDownloadURL :: "Env \<Rightarrow> string \<Rightarrow> Handler" where
  "handleGetReportDownloadURL env reportID s ctx =
     (case ctx_claims ctx of
        None \<Rightarrow> (s, respondError StatusUnauthorized ''authentication required'')
      | Some claims \<Rightarrow>
     (case GetReport s (cl_OrganizationID claims) reportID of
        Inl err \<Rightarrow> (s, respondError StatusNotFound ''report not found'')
      | Inr report \<Rightarrow>
     (if rp_Status report \<noteq> ''completed''
      then (s, respondError StatusBadRequest ''report is not ready for download'')
      else
     (let expiresAt = env_now env + oneHour
      in case env_SignedURL env of
           None \<Rightarrow>
             (s, respondError StatusInternalServerError ''failed to generate download URL'')
         | Some url \<Rightarrow> (s, respondJSON StatusOK (DownloadURLBody url expiresAt))))))"

subsection \<open>api: organization and user handlers\<close>

record UpdateOrganizationRequest =
  uor_Name :: string
  uor_Industry :: string
  uor_EmployeeCount :: string
  uor_RegulatoryFramework :: string
  uor_Website :: string
  uor_Address :: string
  uor_Phone :: string

definition handleUpdateOrganization :: "Env \<Rightarrow> UpdateOrganizationRequest option \<Rightarrow> Handler" where
  "handleUpdateOrganization env body s ctx =
     (case ctx_claims ctx of
        None \<Rightarrow> (s, respondError StatusUnauthorized ''authentication required'')
      | Some claims \<Rightarrow>
     (case body of
        None \<Rightarrow> (s, respondError StatusBadRequest ''invalid request body'')
      | Some req \<Rightarrow>
     (case GetOrganization s (cl_OrganizationID claims) of
        Inl err \<Rightarrow> (s, respondError StatusNotFound ''organization not found'')
      | Inr org \<Rightarrow>
     (let org = org\<lparr>og_Name := uor_Name req, og_Industry := uor_Industry req,
                    og_EmployeeCount := uor_EmployeeCount req,
                    og_RegulatoryFramework := uor_RegulatoryFramework req,
                    og_Website := uor_Website req, og_Address := uor_Address req,
                    og_Phone := uor_Phone req, og_UpdatedBy := cl_UID claims\<rparr>
      in case UpdateOrganization (env_now env) s org of
           Inl err \<Rightarrow>
             (s, respondError StatusInternalServerError ''failed to update organization'')
         | Inr (s1, org) \<Rightarrow>
             (let auditLog = auditLogLiteral claims (og_ID org)
                               ActionOrgUpdated ''organization'' (og_ID org)
                               ''Organization profile updated'' ctx
              in (callCreateAuditLog env s1 auditLog,
                  respondJSON StatusOK (OrganizationBody org)))))))"

text \<open>
  The bodies of \<^verbatim>\<open>PUT /profile\<close> and \<^verbatim>\<open>PUT /users/{userID}/role\<close> have one field
  each (\<^verbatim>\<open>full_name\<close>, \<^verbatim>\<open>role\<close>); the handlers take the field itself.
\<close>

definition handleUpdateProfile :: "Env \<Rightarrow> string option \<Rightarrow> Handler" where
  "handleUpdateProfile env body s ctx =
     (case ctx_claims ctx of
        None \<Rightarrow> (s, respondError StatusUnauthorized ''authentication required'')
      | Some claims \<Rightarrow>
     (case body of
        None \<Rightarrow> (s, respondError StatusBadRequest ''invalid request body'')
      | Some fullName \<Rightarrow>
     (case GetUser s (cl_UID claims) of
        Inl err \<Rightarrow> (s, respondError StatusNotFound ''user not found'')
      | Inr user \<Rightarrow>
     (let user = user\<lparr>us_FullName := fullName\<rparr>
      in case UpdateUser (env_now env) s user of
           Inl err \<Rightarrow> (s, respondError StatusInternalServerError ''failed to update profile'')
         | Inr (s1, user) \<Rightarrow> (s1, respondJSON StatusOK (UserBody user))))))"

text \<open>\<^verbatim>\<open>%d\<close> of \<^verbatim>\<open>fmt.Sprintf\<close>: an integer in decimal.\<close>

fun decimalDigits :: "nat \<Rightarrow> string" where
  "decimalDigits n =
     (if n < 10 then [''0123456789'' ! n]
      else decimalDigits (n div 10) @ [''0123456789'' ! (n mod 10)])"

definition formatInt :: "int \<Rightarrow> string" where
  "formatInt i = (if i < 0 then CHR ''-'' # decimalDigits (nat (- i)) else decimalDigits (nat i))"

record InviteUserRequest =
  iur_Email :: string
  iur_Role :: string
  iur_Message :: string

definition handleInviteUser :: "InviteUserRequest option \<Rightarrow> Handler" where
  "handleInviteUser body s ctx =
     (case ctx_claims ctx of
        None \<Rightarrow> (s, respondError StatusUnauthorized ''authentication required'')
      | Some claims \<Rightarrow>
     (case body of
        None \<Rightarrow> (s, respondError StatusBadRequest ''invalid request body'')
      | Some req \<Rightarrow>
     (case GetOrganization s (cl_OrganizationID claims) of
        Inl err \<Rightarrow> (s, respondError StatusInternalServerError ''failed to get organization'')
      | Inr org \<Rightarrow>
     (case ListUsersByOrganization s (cl_OrganizationID claims) of
        Inl err \<Rightarrow> (s, respondError StatusInternalServerError ''failed to check user limit'')
      | Inr users \<Rightarrow>
     (if int (length users) \<ge> sb_MaxUsers (og_Subscription org)
      then (s, respondError StatusForbidden
                 (''user limit reached. Please upgrade to add more users (current limit: ''
                  @ formatInt (sb_MaxUsers (og_Subscription org)) @ '')''))
      else (s, respondJSON StatusOK (MessageBody (''Invitation sent to '' @ iur_Email req))))))))"

text \<open>
  The role change and the deletion also call the identity provider
  (\<^verbatim>\<open>SetCustomClaims\<close>, \<^verbatim>\<open>DeleteUser\<close>); of these calls only the verdict of
  \<^verbatim>\<open>DeleteUser\<close> reaches the handler.
\<close>

definition handleUpdateUserRole :: "Env \<Rightarrow> string \<Rightarrow> string option \<Rightarrow> Handler" where
  "handleUpdateUserRole env userID body s ctx =
     (case ctx_claims ctx of
        None \<Rightarrow> (s, respondError StatusUnauthorized ''authentication required'')
      | Some claims \<Rightarrow>
     (case body of
        None \<Rightarrow> (s, respondError StatusBadRequest ''invalid request body'')
      | Some role \<Rightarrow>
     (case GetUser s userID of
        Inl err \<Rightarrow> (s, respondError StatusNotFound ''user not found'')
      | Inr user \<Rightarrow>
     (if us_OrganizationID user \<noteq> cl_OrganizationID claims
      then (s, respondError StatusForbidden ''user not in your organization'')
      else
     (let user = user\<lparr>us_Role := role\<rparr>
      in case UpdateUser (env_now env) s user of
           Inl err \<Rightarrow>
             (s, respondError StatusInternalServerError ''failed to update user role'')
         | Inr (s1, user) \<Rightarrow> (s1, respondJSON StatusOK (UserBody user)))))))"

definition handleDeleteUser :: "Env \<Rightarrow> string \<Rightarrow> Handler" where
  "handleDeleteUser env userID s ctx =
     (case ctx_claims ctx of
        None \<Rightarrow> (s, respondError StatusUnauthorized ''authentication required'')
      | Some claims \<Rightarrow>
     (if userID = cl_UID claims
      then (s, respondError StatusBadRequest ''cannot delete your own account'')
      else
     (case GetUser s userID of
        Inl err \<Rightarrow> (s, respondError StatusNotFound ''user not found'')
      | Inr user \<Rightarrow>
     (if us_OrganizationID user \<noteq> cl_OrganizationID claims
      then (s, respondError StatusForbidden ''user not in your organization'')
      else if env_DeleteUser_fails env
      then (s, respondError StatusInternalServerError ''failed to delete user'')
      else
     (let user = user\<lparr>us_Status := ''inactive''\<rparr>;
          s1 = (case UpdateUser (env_now env) s user of Inl err \<Rightarrow> s | Inr (s', user') \<Rightarrow> s')
      in (s1, respondJSON StatusOK (MessageBody ''user deleted successfully'')))))))"

subsection \<open>api: the routes\<close>

text \<open>
  \<^verbatim>\<open>AuthMiddleware.RequireOrganization\<close>, the middleware in front of every route of an
  organization. (\<^verbatim>\<open>Authenticate\<close>, in front of it, verifies the token and leaves the
  claims in the context: \<open>ctx_claims\<close>.)
\<close>

definition RequireOrganization :: "Handler \<Rightarrow> Handler" where
  "RequireOrganization next s ctx =
     (case ctx_claims ctx of
        None \<Rightarrow> (s, respondError StatusUnauthorized ''authentication required'')
      | Some claims \<Rightarrow>
          if cl_OrganizationID claims = ''''
          then (s, respondError StatusForbidden ''organization membership required'')
          else next s ctx)"

text \<open>
  \<^verbatim>\<open>setupRoutes\<close>: the routes that read or write one entity by its id, and the
  invitation, each with the middleware \<^verbatim>\<open>server.go\<close> puts in front of its handler.
\<close>

definition routeGetRequirement :: "Env \<Rightarrow> string \<Rightarrow> Handler" where
  "routeGetRequirement env requirementID =
     RequireOrganization (handleGetRequirement env requirementID)"

definition routeUpdateRequirement :: "Env \<Rightarrow> string \<Rightarrow> UpdateRequirementRequest option \<Rightarrow> Handler" where
  "routeUpdateRequirement env requirementID body =
     RequireOrganization (requireWrite (handleUpdateRequirement env requirementID body))"

definition routeDeactivateRequirement :: "Env \<Rightarrow> string \<Rightarrow> Handler" where
  "routeDeactivateRequirement env requirementID =
     RequireOrganization (requireWrite (handleDeactivateRequirement env requirementID))"

definition routeCreateEvidence :: "Env \<Rightarrow> CreateEvidenceRequest option \<Rightarrow> Handler" where
  "routeCreateEvidence env body =
     RequireOrganization (requireWrite (handleCreateEvidence env body))"

definition routeGetEvidence :: "Env \<Rightarrow> string \<Rightarrow> Handler" where
  "routeGetEvidence env evidenceID = RequireOrganization (handleGetEvidence env evidenceID)"

definition routeUpdateEvidence :: "Env \<Rightarrow> string \<Rightarrow> UpdateEvidenceRequest option \<Rightarrow> Handler" where
  "routeUpdateEvidence env evidenceID body =
     RequireOrganization (requireWrite (handleUpdateEvidence env evidenceID body))"

definition routeDeleteEvidence :: "Env \<Rightarrow> string \<Rightarrow> Handler" where
  "routeDeleteEvidence env evidenceID =
     RequireOrganization (requireWrite (handleDeleteEvidence env evidenceID))"

definition routeGenerateDownloadURL :: "Env \<Rightarrow> string \<Rightarrow> Handler" where
  "routeGenerateDownloadURL env evidenceID =
     RequireOrganization (handleGenerateDownloadURL env evidenceID)"

definition routeGetReport :: "string \<Rightarrow> Handler" where
  "routeGetReport reportID = RequireOrganization (handleGetReport reportID)"

definition routeGetReportDownloadURL :: "Env \<Rightarrow> string \<Rightarrow> Handler" where
  "routeGetReportDownloadURL env reportID =
     RequireOrganization (handleGetReportDownloadURL env reportID)"

definition routeInviteUser :: "InviteUserRequest option \<Rightarrow> Handler" where
  "routeInviteUser body = RequireOrganization (requireAdmin (handleInviteUser body))"

definition routeUpdateUserRole :: "Env \<Rightarrow> string \<Rightarrow> string option \<Rightarrow> Handler" where
  "routeUpdateUserRole env userID body =
     RequireOrganization (requireAdmin (handleUpdateUserRole env userID body))"

definition routeDeleteUser :: "Env \<Rightarrow> string \<Rightarrow> Handler" where
  "routeDeleteUser env userID = RequireOrganization (requireAdmin (handleDeleteUser env userID))"

lemmas route_defs =
  RequireOrganization_def routeGetRequirement_def routeUpdateRequirement_def
  routeDeactivateRequirement_def routeCreateEvidence_def routeGetEvidence_def
  routeUpdateEvidence_def routeDeleteEvidence_def routeGenerateDownloadURL_def
  routeGetReport_def routeGetReportDownloadURL_def routeInviteUser_def
  routeUpdateUserRole_def routeDeleteUser_def

subsection \<open>The audit rule\<close>

text \<open>
  A handler's result \<open>res\<close> from the store \<open>s\<close> has written one audit entry: the
  collection of audit logs is the old one with one document set, under the identifier and
  with the time stamp the store assigned, carrying the action and the resource type given.
\<close>

definition writesOneAuditEntry ::
  "Env \<Rightarrow> Store \<Rightarrow> Store \<times> Response \<Rightarrow> AuditAction \<Rightarrow> string \<Rightarrow> bool" where
  "writesOneAuditEntry env s res action resourceType =
     (\<exists>orgID entry. st_audit_logs (fst res)
          = docSet (st_audit_logs s) (orgID, env_log_uuid env) entry
        \<and> al_Action entry = action \<and> al_ResourceType entry = resourceType
        \<and> al_Timestamp entry = env_now env \<and> al_ID entry = env_log_uuid env
        \<and> al_OrganizationID entry = orgID)"

subsection \<open>An example tenant\<close>

text \<open>
  The organization ``acme'' with one activated requirement \<open>r1\<close>, one evidence record
  \<open>e1\<close> whose upload is pending, one report, an administrator \<open>u1\<close>, a viewer
  \<open>u2\<close> and a removed (inactive) user \<open>u3\<close>; the organization ``globex'' with its
  administrator \<open>u9\<close>.
\<close>

definition exampleSubscription :: Subscription where
  "exampleSubscription =
     \<lparr> sb_Tier = ''starter'', sb_Status = ''trial'', sb_StripeCustomerID = '''',
       sb_StripeSubscriptionID = '''', sb_CurrentPeriodStart = 0, sb_CurrentPeriodEnd = 0,
       sb_CancelAtPeriodEnd = False, sb_MaxUsers = 10, sb_MonthlyPrice = 149 \<rparr>"

definition exampleOrganization :: "string \<Rightarrow> Organization" where
  "exampleOrganization orgID =
     \<lparr> og_ID = orgID, og_Name = orgID, og_Industry = ''financial_services'',
       og_EmployeeCount = ''1-10'', og_RegulatoryFramework = ''sec_ria'', og_Website = '''',
       og_Address = '''', og_Phone = '''', og_Subscription = exampleSubscription,
       og_CreatedAt = 0, og_UpdatedAt = 0, og_UpdatedBy = '''', og_ActiveUserCount = 1 \<rparr>"

definition exampleUser :: "string \<Rightarrow> string \<Rightarrow> string \<Rightarrow> string \<Rightarrow> User" where
  "exampleUser uid orgID role status =
     \<lparr> us_UID = uid, us_Email = uid @ ''@example.com'', us_FullName = uid,
       us_OrganizationID = orgID, us_Role = role, us_Status = status,
       us_EmailVerified = True, us_CreatedAt = 0, us_UpdatedAt = 0, us_LastLoginAt = None \<rparr>"

definition exampleEvidence :: Evidence where
  "exampleEvidence =
     \<lparr> ev_ID = ''e1'', ev_OrganizationID = ''acme'', ev_Title = '''', ev_Description = '''',
       ev_Source = '''', ev_EvidenceDate = 0, ev_FileURL = ''acme/evidence/e1-ack.pdf'',
       ev_FileName = ''ack.pdf'', ev_FileSize = 1024, ev_FileType = ''application/pdf'',
       ev_ExternalLink = '''', ev_Metadata = [], ev_RequirementIDs = [],
       ev_UploadedBy = ''u1'', ev_CreatedAt = 0, ev_UpdatedAt = 0, ev_Status = ''uploading'' \<rparr>"

definition exampleReport :: Report where
  "exampleReport =
     \<lparr> rp_ID = ''p1'', rp_OrganizationID = ''acme'', rp_Title = ''Q1'', rp_Description = '''',
       rp_Type = ''comprehensive'', rp_RequirementIDs = [], rp_Status = ''pending'',
       rp_FileURL = '''', rp_GeneratedBy = ''u1'', rp_CreatedAt = 0, rp_CompletedAt = None,
       rp_ErrorMessage = '''' \<rparr>"

definition exampleStore :: Store where
  "exampleStore =
     \<lparr> st_organizations =
         [(''acme'', exampleOrganization ''acme''), (''globex'', exampleOrganization ''globex'')],
       st_users =
         [(''u1'', exampleUser ''u1'' ''acme'' ''admin'' ''active''),
          (''u2'', exampleUser ''u2'' ''acme'' ''viewer'' ''active''),
          (''u3'', exampleUser ''u3'' ''acme'' ''viewer'' ''inactive''),
          (''u9'', exampleUser ''u9'' ''globex'' ''admin'' ''active'')],
       st_requirement_templates = [],
       st_requirements = [((''acme'', ''r1''), exampleRequirement)],
       st_evidence = [((''acme'', ''e1''), exampleEvidence)],
       st_audit_logs = [],
       st_reports = [((''acme'', ''p1''), exampleReport)] \<rparr>"

definition exampleClaims :: "string \<Rightarrow> string \<Rightarrow> UserClaims" where
  "exampleClaims uid orgID =
     \<lparr> cl_UID = uid, cl_Email = uid @ ''@example.com'', cl_EmailVerified = True,
       cl_OrganizationID = orgID, cl_Role = ''admin'' \<rparr>"

definition exampleCtx :: "string \<Rightarrow> string \<Rightarrow> Ctx" where
  "exampleCtx uid orgID =
     \<lparr> ctx_claims = Some (exampleClaims uid orgID), ctx_RemoteAddr = ''10.0.0.1'',
       ctx_UserAgent = ''curl'' \<rparr>"

text \<open>The same request from a caller whose role is viewer.\<close>

definition viewerCtx :: "string \<Rightarrow> string \<Rightarrow> Ctx" where
  "viewerCtx uid orgID =
     \<lparr> ctx_claims = Some ((exampleClaims uid orgID)\<lparr>cl_Role := ''viewer''\<rparr>),
       ctx_RemoteAddr = ''10.0.0.1'', ctx_UserAgent = ''curl'' \<rparr>"

definition exampleEnv :: Env where
  "exampleEnv =
     \<lparr> env_now = 1000, env_uuid = ''new-id'', env_log_uuid = ''log-id'',
       env_SignedURL = Some ''https://storage.example/signed'', env_DeleteUser_fails = False \<rparr>"

text \<open>
  Further states of the example tenant: \<open>e1\<close> active and associated with \<open>r1\<close>, whose
  count is 1; \<open>e1\<close> active with \<open>r1\<close> listed twice, the count at 2; a seat limit of 3.
\<close>

definition activeStore :: Store where
  "activeStore =
     exampleStore
       \<lparr> st_requirements := [((''acme'', ''r1''), exampleRequirement\<lparr>rq_EvidenceCount := 1\<rparr>)],
         st_evidence :=
           [((''acme'', ''e1''),
             exampleEvidence\<lparr>ev_Status := ''active'', ev_RequirementIDs := [''r1'']\<rparr>)] \<rparr>"

definition duplicateStore :: Store where
  "duplicateStore =
     exampleStore
       \<lparr> st_requirements := [((''acme'', ''r1''), exampleRequirement\<lparr>rq_EvidenceCount := 2\<rparr>)],
         st_evidence :=
           [((''acme'', ''e1''),
             exampleEvidence\<lparr>ev_Status := ''active'', ev_RequirementIDs := [''r1'', ''r1'']\<rparr>)] \<rparr>"

definition seatStore :: Store where
  "seatStore =
     exampleStore
       \<lparr> st_organizations :=
           [(''acme'', (exampleOrganization ''acme'')
                         \<lparr>og_Subscription := exampleSubscription\<lparr>sb_MaxUsers := 3\<rparr>\<rparr>)] \<rparr>"

text \<open>Example requests.\<close>

definition completeUploadRequest :: CreateEvidenceRequest where
  "completeUploadRequest =
     \<lparr> cer_EvidenceID = ''e1'', cer_Title = ''Code of Ethics Ack 2025'', cer_Description = '''',
       cer_EvidenceDate = Some 500, cer_RequirementIDs = [''r1''] \<rparr>"

definition updateEvidenceRequest :: UpdateEvidenceRequest where
  "updateEvidenceRequest =
     \<lparr> uer_Title = ''Ack 2025'', uer_Description = ''signed'', uer_RequirementIDs = [''r1'', ''r2''] \<rparr>"

definition updateRequirementRequest :: UpdateRequirementRequest where
  "updateRequirementRequest =
     \<lparr> urr_Notes = ''reviewed'', urr_NextDueDate = Some ''2026-12-31T00:00:00Z'',
       urr_Status = '''' \<rparr>"

definition inviteUserRequest :: InviteUserRequest where
  "inviteUserRequest =
     \<lparr> iur_Email = ''new@example.com'', iur_Role = ''viewer'', iur_Message = '''' \<rparr>"

lemmas request_defs =
  completeUploadRequest_def updateEvidenceRequest_def updateRequirementRequest_def
  inviteUserRequest_def

lemmas example_defs =
  exampleStore_def exampleEnv_def exampleCtx_def viewerCtx_def exampleClaims_def exampleReport_def
  exampleEvidence_def exampleUser_def exampleOrganization_def exampleSubscription_def
  exampleRequirement_def

lemmas store_defs =
  docGet_def docSet_def docUpdate_def subDocuments_def
  GetOrganization_def UpdateOrganization_def GetUser_def UpdateUser_def
  ListUsersByOrganization_def CreateRequirement_def GetRequirement_def ListRequirements_def
  UpdateRequirement_def incrementRequirementEvidenceCount_def
  decrementRequirementEvidenceCount_def CreateEvidence_def GetEvidence_def ListEvidence_def
  UpdateEvidence_def DeleteEvidence_def CreateAuditLog_def CreateReport_def GetReport_def
  GetRequirementTemplate_def

lemmas api_defs =
  respondJSON_def respondError_def requireAdmin_def requireWrite_def auditLogLiteral_def
  callCreateAuditLog_def

section \<open>Status derivation\<close>

lemma wholeDays_neg_iff: "wholeDays d < 0 \<longleftrightarrow> d \<le> - nanosPerDay"
proof (cases "d < 0")
  case True
  have pos: "(0::int) < nanosPerDay" by (simp add: nanosPerDay_def)
  have "0 < (- d) div nanosPerDay \<longleftrightarrow> nanosPerDay \<le> - d"
    using pos by (simp add: pos_imp_zdiv_pos_iff)
  with True show ?thesis by (auto simp: wholeDays_def)
next
  case False
  have pos: "(0::int) < nanosPerDay" by (simp add: nanosPerDay_def)
  from False have "0 \<le> d div nanosPerDay"
    using pos by (simp add: pos_imp_zdiv_nonneg_iff)
  with False pos show ?thesis by (simp add: wholeDays_def)
qed

lemma wholeDays_le7_iff: "0 \<le> d \<Longrightarrow> wholeDays d \<le> 7 \<longleftrightarrow> d < 8 * nanosPerDay"
proof -
  assume nn: "0 \<le> d"
  have pos: "(0::int) < nanosPerDay" by (simp add: nanosPerDay_def)
  have "d div nanosPerDay < 8 \<longleftrightarrow> d < 8 * nanosPerDay"
    using pos zdiv_mono1 [of d "8 * nanosPerDay - 1" nanosPerDay]
          zdiv_mono1 [of "8 * nanosPerDay" d nanosPerDay]
    by (auto simp: nanosPerDay_def)
  moreover have "d div nanosPerDay \<le> 7 \<longleftrightarrow> d div nanosPerDay < 8" by linarith
  ultimately show ?thesis using nn by (simp add: wholeDays_def)
qed

lemma Sub_exact: "minDuration \<le> t - u \<Longrightarrow> t - u \<le> maxDuration \<Longrightarrow> Sub t u = t - u"
  by (simp add: Sub_def)

lemma Sub_sign: "(Sub t u < 0 \<longleftrightarrow> t < u) \<and> (0 \<le> Sub t u \<longleftrightarrow> u \<le> t)"
  by (auto simp: Sub_def minDuration_def maxDuration_def)

lemma Sub_le_iff: "minDuration \<le> c \<Longrightarrow> c < maxDuration \<Longrightarrow> Sub t u \<le> c \<longleftrightarrow> t - u \<le> c"
  by (auto simp: Sub_def)

lemma Sub_less_iff: "minDuration < c \<Longrightarrow> c \<le> maxDuration \<Longrightarrow> Sub t u < c \<longleftrightarrow> t - u < c"
  by (auto simp: Sub_def)

text \<open>
  C10. For a requirement whose evidence count is not negative the derived status is one
  of not_started, compliant, at_risk, non_compliant; the status in_progress is returned
  only for a negative evidence count.
\<close>

theorem CalculateStatus_in_progress_only_negative:
  "(0 \<le> rq_EvidenceCount r \<longrightarrow>
      CalculateStatus r now \<in> {StatusNotStarted, StatusCompliant, StatusAtRisk, StatusNonCompliant})
   \<and> (CalculateStatus r now = StatusInProgress \<longrightarrow> rq_EvidenceCount r < 0)"
  by (auto simp: CalculateStatus_def Let_def split: option.splits)

theorem CalculateStatus_in_progress_only_negative_witness:
  "0 \<le> rq_EvidenceCount (exampleRequirement\<lparr>rq_EvidenceCount := 2\<rparr>)
   \<and> CalculateStatus (exampleRequirement\<lparr>rq_EvidenceCount := 2\<rparr>) 0 = StatusCompliant
   \<and> CalculateStatus
        (exampleRequirement\<lparr>rq_EvidenceCount := - 1, rq_NextDueDate := Some (30 * nanosPerDay)\<rparr>) 0
       = StatusInProgress
   \<and> rq_EvidenceCount
        (exampleRequirement\<lparr>rq_EvidenceCount := - 1, rq_NextDueDate := Some (30 * nanosPerDay)\<rparr>) < 0"
  using CalculateStatus_in_progress_only_negative
          [of "exampleRequirement\<lparr>rq_EvidenceCount := 2\<rparr>" 0]
        CalculateStatus_in_progress_only_negative
          [of "exampleRequirement\<lparr>rq_EvidenceCount := - 1, rq_NextDueDate := Some (30 * nanosPerDay)\<rparr>" 0]
  by (simp add: CalculateStatus_def exampleRequirement_def wholeDays_def Sub_def
        minDuration_def maxDuration_def nanosPerDay_def)

text \<open>
  C2, as stated, fails twice: a due date one hour in the past is a past due date, yet the
  status is at_risk and not non_compliant; a due date seven and a half days ahead is more
  than 7 days away, yet the status is at_risk and not compliant.
\<close>

theorem CalculateStatus_table_counterexample:
  "0 < rq_EvidenceCount (exampleRequirement\<lparr>rq_EvidenceCount := 1, rq_NextDueDate := Some (- oneHour)\<rparr>)
   \<and> - oneHour < 0
   \<and> CalculateStatus
         (exampleRequirement\<lparr>rq_EvidenceCount := 1, rq_NextDueDate := Some (- oneHour)\<rparr>) 0
       \<noteq> StatusNonCompliant
   \<and> 7 * nanosPerDay < 7 * nanosPerDay + 12 * oneHour - 0
   \<and> CalculateStatus
         (exampleRequirement\<lparr>rq_EvidenceCount := 1,
            rq_NextDueDate := Some (7 * nanosPerDay + 12 * oneHour)\<rparr>) 0
       \<noteq> StatusCompliant"
  by (simp add: CalculateStatus_def exampleRequirement_def wholeDays_def Sub_def
        minDuration_def maxDuration_def nanosPerDay_def oneHour_def)

text \<open>
  C2, amended. The status is decided on the number of whole days until the due date:
  an evidence count of 0 gives not_started whatever the due date; a positive count and no
  due date gives compliant; a positive count and a due date at least 24 hours in the past
  gives non_compliant; a positive count and a due date that is not in the past and less
  than 8 days away gives at_risk; a positive count and a due date 8 days or more away gives
  compliant.
\<close>

theorem CalculateStatus_table:
  "(rq_EvidenceCount r = 0 \<longrightarrow> CalculateStatus r now = StatusNotStarted)
   \<and> (0 < rq_EvidenceCount r \<and> rq_NextDueDate r = None \<longrightarrow>
        CalculateStatus r now = StatusCompliant)
   \<and> (0 < rq_EvidenceCount r \<and> rq_NextDueDate r = Some due \<and> due - now \<le> - nanosPerDay \<longrightarrow>
        CalculateStatus r now = StatusNonCompliant)
   \<and> (0 < rq_EvidenceCount r \<and> rq_NextDueDate r = Some due \<and> now \<le> due
        \<and> due - now < 8 * nanosPerDay \<longrightarrow>
        CalculateStatus r now = StatusAtRisk)
   \<and> (0 < rq_EvidenceCount r \<and> rq_NextDueDate r = Some due \<and> 8 * nanosPerDay \<le> due - now \<longrightarrow>
        CalculateStatus r now = StatusCompliant)"
proof -
  have past: "wholeDays (Sub due now) < 0" if "due - now \<le> - nanosPerDay"
  proof -
    have "Sub due now \<le> - nanosPerDay"
      using that
      by (subst Sub_le_iff) (simp_all add: minDuration_def maxDuration_def nanosPerDay_def)
    then show ?thesis by (simp add: wholeDays_neg_iff)
  qed
  have soon: "\<not> wholeDays (Sub due now) < 0 \<and> wholeDays (Sub due now) \<le> 7"
    if "now \<le> due" and "due - now < 8 * nanosPerDay"
  proof -
    have nn: "0 \<le> Sub due now" using that(1) by (simp add: Sub_sign)
    have "Sub due now < 8 * nanosPerDay"
      using that(2)
      by (subst Sub_less_iff) (simp_all add: minDuration_def maxDuration_def nanosPerDay_def)
    with nn show ?thesis
      by (simp add: wholeDays_le7_iff wholeDays_neg_iff nanosPerDay_def)
  qed
  have far: "\<not> wholeDays (Sub due now) < 0 \<and> \<not> wholeDays (Sub due now) \<le> 7"
    if "8 * nanosPerDay \<le> due - now"
  proof -
    have "\<not> Sub due now < 8 * nanosPerDay"
      using that
      by (subst Sub_less_iff) (simp_all add: minDuration_def maxDuration_def nanosPerDay_def)
    moreover from this have "0 \<le> Sub due now" by (simp add: nanosPerDay_def)
    ultimately show ?thesis
      by (simp add: wholeDays_le7_iff wholeDays_neg_iff nanosPerDay_def)
  qed
  show ?thesis
    using past soon far by (simp add: CalculateStatus_def Let_def)
qed

theorem CalculateStatus_table_witness:
  "CalculateStatus exampleRequirement 0 = StatusNotStarted
   \<and> CalculateStatus (exampleRequirement\<lparr>rq_EvidenceCount := 1\<rparr>) 0 = StatusCompliant
   \<and> CalculateStatus
         (exampleRequirement\<lparr>rq_EvidenceCount := 1, rq_NextDueDate := Some (- nanosPerDay)\<rparr>) 0
       = StatusNonCompliant
   \<and> CalculateStatus
         (exampleRequirement\<lparr>rq_EvidenceCount := 1, rq_NextDueDate := Some (3 * nanosPerDay)\<rparr>) 0
       = StatusAtRisk
   \<and> CalculateStatus
         (exampleRequirement\<lparr>rq_EvidenceCount := 1, rq_NextDueDate := Some (30 * nanosPerDay)\<rparr>) 0
       = StatusCompliant"
  using CalculateStatus_table [of exampleRequirement 0 0]
        CalculateStatus_table [of "exampleRequirement\<lparr>rq_EvidenceCount := 1\<rparr>" 0 0]
        CalculateStatus_table
          [of "exampleRequirement\<lparr>rq_EvidenceCount := 1, rq_NextDueDate := Some (- nanosPerDay)\<rparr>"
              0 "- nanosPerDay"]
        CalculateStatus_table
          [of "exampleRequirement\<lparr>rq_EvidenceCount := 1, rq_NextDueDate := Some (3 * nanosPerDay)\<rparr>"
              0 "3 * nanosPerDay"]
        CalculateStatus_table
          [of "exampleRequirement\<lparr>rq_EvidenceCount := 1, rq_NextDueDate := Some (30 * nanosPerDay)\<rparr>"
              0 "30 * nanosPerDay"]
  by (simp add: exampleRequirement_def nanosPerDay_def)

section \<open>Evidence: completing an upload and updating an item\<close>

lemma handleCreateEvidence_requirements:
  "st_requirements (fst (handleCreateEvidence env body s ctx)) = st_requirements s"
  by (simp add: handleCreateEvidence_def store_defs api_defs Let_def
           split: option.splits sum.splits)

text \<open>
  C1. Completing the upload of \<open>e1\<close> with the requirement \<open>r1\<close> named answers 201 and
  stores the record as active with \<open>r1\<close> associated, but the evidence count of \<open>r1\<close>
  stays at 0: \<^verbatim>\<open>handleCreateEvidence\<close> writes through \<^verbatim>\<open>UpdateEvidence\<close>, which
  adjusts no counter.
\<close>

theorem handleCreateEvidence_no_increment:
  "map_option rq_EvidenceCount (docGet (st_requirements exampleStore) (''acme'', ''r1'')) = Some 0
   \<and> fst (snd (handleCreateEvidence exampleEnv (Some completeUploadRequest) exampleStore
               (exampleCtx ''u1'' ''acme''))) = StatusCreated
   \<and> map_option ev_Status
        (docGet (st_evidence (fst (handleCreateEvidence exampleEnv (Some completeUploadRequest)
           exampleStore (exampleCtx ''u1'' ''acme'')))) (''acme'', ''e1'')) = Some ''active''
   \<and> map_option ev_RequirementIDs
        (docGet (st_evidence (fst (handleCreateEvidence exampleEnv (Some completeUploadRequest)
           exampleStore (exampleCtx ''u1'' ''acme'')))) (''acme'', ''e1'')) = Some [''r1'']
   \<and> map_option rq_EvidenceCount
        (docGet (st_requirements (fst (handleCreateEvidence exampleEnv (Some completeUploadRequest)
           exampleStore (exampleCtx ''u1'' ''acme'')))) (''acme'', ''r1'')) = Some 0"
  by (simp add: handleCreateEvidence_def request_defs example_defs store_defs api_defs Let_def)

text \<open>
  The sibling path: \<^verbatim>\<open>CreateEvidence\<close> does add 1 to the count of a requirement it is
  given, here \<open>r1\<close>.
\<close>

lemma CreateEvidence_increments:
  "map_option rq_EvidenceCount
     (docGet (st_requirements
        (fst (projr (CreateEvidence ''e2'' 1000 exampleStore
                       (exampleEvidence\<lparr>ev_RequirementIDs := [''r1'']\<rparr>)))))
        (''acme'', ''r1'')) = Some 1"
  by (simp add: example_defs store_defs Let_def)

text \<open>
  The store writes every evidence document under the path its own fields name; the
  theorem below assumes as much of the document it finds.
\<close>

lemma evidence_written_under_own_path:
  "UpdateEvidence now s e = Inr (s', e') \<Longrightarrow>
     docGet (st_evidence s') (ev_OrganizationID e', ev_ID e') = Some e'"
  "CreateEvidence uuid now s e = Inr (s', e') \<Longrightarrow>
     docGet (st_evidence s') (ev_OrganizationID e', ev_ID e') = Some e'"
proof -
  have inc: "st_evidence (incrementEach t x orgID ids) = st_evidence x" for t x orgID ids
    by (induction ids arbitrary: x)
       (auto simp: incrementRequirementEvidenceCount_def docUpdate_def split: option.splits)
  show "UpdateEvidence now s e = Inr (s', e') \<Longrightarrow>
     docGet (st_evidence s') (ev_OrganizationID e', ev_ID e') = Some e'"
    by (auto simp: UpdateEvidence_def docGet_def docSet_def Let_def update_conv')
  show "CreateEvidence uuid now s e = Inr (s', e') \<Longrightarrow>
     docGet (st_evidence s') (ev_OrganizationID e', ev_ID e') = Some e'"
    by (auto simp: CreateEvidence_def docGet_def docSet_def Let_def update_conv' inc)
qed

text \<open>
  C8. Updating an evidence item leaves the collection of requirements as it was, so no
  evidence count changes, whatever ids the update adds or removes; the stored item gets
  the supplied title, description and list of requirement ids.
\<close>

theorem handleUpdateEvidence_counts_unchanged:
  "st_requirements (fst (handleUpdateEvidence env evidenceID body s ctx)) = st_requirements s
   \<and> (ctx_claims ctx = Some claims \<and> body = Some req
        \<and> docGet (st_evidence s) (cl_OrganizationID claims, evidenceID) = Some e
        \<and> ev_OrganizationID e = cl_OrganizationID claims \<and> ev_ID e = evidenceID \<longrightarrow>
        fst (snd (handleUpdateEvidence env evidenceID body s ctx)) = StatusOK
        \<and> docGet (st_evidence (fst (handleUpdateEvidence env evidenceID body s ctx)))
             (cl_OrganizationID claims, evidenceID)
           = Some (e\<lparr>ev_Title := uer_Title req, ev_Description := uer_Description req,
                      ev_RequirementIDs := uer_RequirementIDs req, ev_UpdatedAt := env_now env\<rparr>))"
  by (simp add: handleUpdateEvidence_def store_defs api_defs Let_def update_conv'
           split: option.splits sum.splits)

theorem handleUpdateEvidence_counts_unchanged_witness:
  "docGet (st_evidence activeStore) (''acme'', ''e1'')
     = Some (exampleEvidence\<lparr>ev_Status := ''active'', ev_RequirementIDs := [''r1'']\<rparr>)
   \<and> st_requirements (fst (handleUpdateEvidence exampleEnv ''e1'' (Some updateEvidenceRequest)
        activeStore (exampleCtx ''u1'' ''acme''))) = st_requirements activeStore
   \<and> map_option ev_RequirementIDs
        (docGet (st_evidence (fst (handleUpdateEvidence exampleEnv ''e1'' (Some updateEvidenceRequest)
           activeStore (exampleCtx ''u1'' ''acme'')))) (''acme'', ''e1'')) = Some [''r1'', ''r2'']
   \<and> map_option rq_EvidenceCount (docGet (st_requirements
        (fst (handleUpdateEvidence exampleEnv ''e1'' (Some updateEvidenceRequest)
           activeStore (exampleCtx ''u1'' ''acme'')))) (''acme'', ''r1'')) = Some 1"
  using handleUpdateEvidence_counts_unchanged
          [of exampleEnv "''e1''" "Some updateEvidenceRequest" activeStore
              "exampleCtx ''u1'' ''acme''" "exampleClaims ''u1'' ''acme''" updateEvidenceRequest
              "exampleEvidence\<lparr>ev_Status := ''active'', ev_RequirementIDs := [''r1'']\<rparr>"]
  by (simp add: activeStore_def request_defs example_defs docGet_def)

section \<open>Evidence: deletion\<close>

lemma decrementEach_frame:
  "st_evidence (decrementEach now s orgID ids) = st_evidence s
   \<and> st_users (decrementEach now s orgID ids) = st_users s
   \<and> st_organizations (decrementEach now s orgID ids) = st_organizations s
   \<and> st_audit_logs (decrementEach now s orgID ids) = st_audit_logs s
   \<and> st_reports (decrementEach now s orgID ids) = st_reports s
   \<and> st_requirement_templates (decrementEach now s orgID ids) = st_requirement_templates s"
  by (induction ids arbitrary: s)
     (auto simp: decrementRequirementEvidenceCount_def docUpdate_def split: option.splits)

text \<open>
  The loop of \<^verbatim>\<open>DeleteEvidence\<close> takes from the count of each requirement of the
  organization the number of times its id occurs in the list; ids that name no requirement
  of the organization are skipped.
\<close>

lemma decrementEach_count:
  "map_option rq_EvidenceCount (map_of (st_requirements (decrementEach now s orgID ids)) k)
   = map_option (\<lambda>c. c - (if fst k = orgID then int (count_list ids (snd k)) else 0))
       (map_option rq_EvidenceCount (map_of (st_requirements s) k))"
proof (induction ids arbitrary: s)
  case Nil
  show ?case by (simp add: option.map_comp comp_def option.map_ident)
next
  case (Cons reqID rest)
  show ?case
  proof (cases "map_of (st_requirements s) (orgID, reqID)")
    case None
    then have "decrementEach now s orgID (reqID # rest) = decrementEach now s orgID rest"
      by (simp add: decrementRequirementEvidenceCount_def docUpdate_def)
    moreover from None have "k = (orgID, reqID) \<Longrightarrow> map_of (st_requirements s) k = None"
      by simp
    ultimately show ?thesis
      using Cons.IH [of s] by (cases "k = (orgID, reqID)") (auto simp: option.map_comp comp_def)
  next
    case (Some r)
    define s' where "s' = s\<lparr>st_requirements := AList.update (orgID, reqID)
        (r\<lparr>rq_EvidenceCount := rq_EvidenceCount r + (- 1), rq_UpdatedAt := now\<rparr>)
        (st_requirements s)\<rparr>"
    from Some have step:
      "decrementEach now s orgID (reqID # rest) = decrementEach now s' orgID rest"
      by (simp add: decrementRequirementEvidenceCount_def docUpdate_def s'_def)
    have "map_option rq_EvidenceCount (map_of (st_requirements s') k)
          = map_option (\<lambda>c. c - (if k = (orgID, reqID) then 1 else 0))
              (map_option rq_EvidenceCount (map_of (st_requirements s) k))"
      using Some by (simp add: s'_def update_conv' option.map_comp comp_def option.map_ident)
    then show ?thesis
      unfolding step Cons.IH [of s']
      by (cases k) (auto simp: option.map_comp comp_def intro!: option.map_cong)
  qed
qed

lemma filter_update_excluded:
  "distinct (map fst c) \<Longrightarrow> map_of c k = Some v \<Longrightarrow> \<not> P v' \<Longrightarrow>
   filter (\<lambda>kv. Q (fst kv) \<and> P (snd kv)) (AList.update k v' c)
   = filter (\<lambda>kv. fst kv \<noteq> k \<and> Q (fst kv) \<and> P (snd kv)) c"
proof (induction c)
  case Nil
  then show ?case by simp
next
  case (Cons a c)
  show ?case
  proof (cases "fst a = k")
    case True
    with Cons.prems(1) have "\<forall>kv \<in> set c. fst kv \<noteq> k" by (auto simp: image_iff)
    then have "filter (\<lambda>kv. Q (fst kv) \<and> P (snd kv)) c
               = filter (\<lambda>kv. fst kv \<noteq> k \<and> Q (fst kv) \<and> P (snd kv)) c"
      by (intro filter_cong) auto
    with True Cons.prems(3) show ?thesis by simp
  next
    case False
    with Cons show ?thesis by auto
  qed
qed

lemma DeleteEvidence_result:
  "docGet (st_evidence s) (orgID, evidenceID) = Some e \<Longrightarrow>
   DeleteEvidence now s orgID evidenceID
   = Inr (decrementEach now
            (s\<lparr>st_evidence := AList.update (orgID, evidenceID)
                  (e\<lparr>ev_Status := ''deleted'', ev_UpdatedAt := now\<rparr>) (st_evidence s)\<rparr>)
            orgID (ev_RequirementIDs e))"
  by (simp add: DeleteEvidence_def GetEvidence_def docGet_def docUpdate_def)

lemma DeleteEvidence_counts:
  assumes "docGet (st_evidence s) (orgID, evidenceID) = Some e"
  shows "map_option rq_EvidenceCount
           (docGet (st_requirements (projr (DeleteEvidence now s orgID evidenceID))) k)
         = map_option
             (\<lambda>c. c - (if fst k = orgID then int (count_list (ev_RequirementIDs e) (snd k)) else 0))
             (map_option rq_EvidenceCount (docGet (st_requirements s) k))"
  unfolding DeleteEvidence_result [OF assms] docGet_def sum.sel decrementEach_count by simp

text \<open>
  C5, as stated, fails on an active item whose list of requirement ids names \<open>r1\<close>
  twice: deleting it takes 2, not 1, from the evidence count of \<open>r1\<close>.
\<close>

theorem DeleteEvidence_soft_delete_counterexample:
  "map_option ev_Status (docGet (st_evidence duplicateStore) (''acme'', ''e1'')) = Some ''active''
   \<and> ''r1'' \<in> set (ev_RequirementIDs
        (exampleEvidence\<lparr>ev_Status := ''active'', ev_RequirementIDs := [''r1'', ''r1'']\<rparr>))
   \<and> map_option rq_EvidenceCount (docGet (st_requirements duplicateStore) (''acme'', ''r1''))
       = Some 2
   \<and> \<not> isl (DeleteEvidence 1000 duplicateStore ''acme'' ''e1'')
   \<and> map_option rq_EvidenceCount
        (docGet (st_requirements (projr (DeleteEvidence 1000 duplicateStore ''acme'' ''e1'')))
           (''acme'', ''r1''))
       \<noteq> Some (2 - 1)"
  by (simp add: duplicateStore_def example_defs store_defs)

text \<open>
  C5, amended. Deleting an evidence item is a soft delete: the stored record keeps every
  field but its status, which becomes deleted, and its update time; the evidence count of
  each requirement of the tenant goes down by the number of times its id occurs in the
  item's list of requirement ids at deletion time (by exactly 1 when it is listed once, by
  nothing when it is not listed), and no other requirement changes its count; the results
  of \<^verbatim>\<open>ListEvidence\<close> are afterwards the active documents of the tenant other than the
  deleted one.
\<close>

theorem DeleteEvidence_soft_delete:
  assumes "docGet (st_evidence s) (orgID, evidenceID) = Some e"
  shows "\<exists>s'. DeleteEvidence now s orgID evidenceID = Inr s'
     \<and> docGet (st_evidence s') (orgID, evidenceID)
         = Some (e\<lparr>ev_Status := ''deleted'', ev_UpdatedAt := now\<rparr>)
     \<and> (\<forall>k. map_option rq_EvidenceCount (docGet (st_requirements s') k)
            = map_option
                (\<lambda>c. c - (if fst k = orgID
                           then int (count_list (ev_RequirementIDs e) (snd k)) else 0))
                (map_option rq_EvidenceCount (docGet (st_requirements s) k)))
     \<and> (distinct (map fst (st_evidence s)) \<longrightarrow>
          (\<forall>filters. ListEvidence s' orgID filters
             = Inr (map snd (filter (\<lambda>kv. fst kv \<noteq> (orgID, evidenceID) \<and> fst (fst kv) = orgID
                        \<and> ev_Status (snd kv) = ''active'' \<and> list_all (\<lambda>p. p (snd kv)) filters)
                      (st_evidence s)))))"
proof -
  define c where "c = AList.update (orgID, evidenceID)
      (e\<lparr>ev_Status := ''deleted'', ev_UpdatedAt := now\<rparr>) (st_evidence s)"
  define s' where "s' = decrementEach now (s\<lparr>st_evidence := c\<rparr>) orgID (ev_RequirementIDs e)"
  have del: "DeleteEvidence now s orgID evidenceID = Inr s'"
    using DeleteEvidence_result [OF assms] by (simp add: s'_def c_def)
  have ev: "st_evidence s' = c"
    by (simp add: s'_def decrementEach_frame)
  have stored: "docGet (st_evidence s') (orgID, evidenceID)
         = Some (e\<lparr>ev_Status := ''deleted'', ev_UpdatedAt := now\<rparr>)"
    by (simp add: ev c_def docGet_def update_conv')
  have counts: "map_option rq_EvidenceCount (docGet (st_requirements s') k)
            = map_option
                (\<lambda>c. c - (if fst k = orgID
                           then int (count_list (ev_RequirementIDs e) (snd k)) else 0))
                (map_option rq_EvidenceCount (docGet (st_requirements s) k))" for k
    using DeleteEvidence_counts [OF assms, of now k] by (simp add: del)
  have listed: "ListEvidence s' orgID filters
             = Inr (map snd (filter (\<lambda>kv. fst kv \<noteq> (orgID, evidenceID) \<and> fst (fst kv) = orgID
                        \<and> ev_Status (snd kv) = ''active'' \<and> list_all (\<lambda>p. p (snd kv)) filters)
                      (st_evidence s)))"
    if d: "distinct (map fst (st_evidence s))" for filters
  proof -
    have "filter (\<lambda>kv. (fst (fst kv) = orgID)
                     \<and> (ev_Status (snd kv) = ''active'' \<and> list_all (\<lambda>p. p (snd kv)) filters)) c
          = filter (\<lambda>kv. fst kv \<noteq> (orgID, evidenceID) \<and> (fst (fst kv) = orgID)
                     \<and> (ev_Status (snd kv) = ''active'' \<and> list_all (\<lambda>p. p (snd kv)) filters))
              (st_evidence s)"
      unfolding c_def
      using d assms
      by (intro filter_update_excluded [where v = e and Q = "\<lambda>k. fst k = orgID"])
         (simp_all add: docGet_def)
    then show ?thesis
      by (simp add: ListEvidence_def subDocuments_def ev)
  qed
  from del stored counts listed show ?thesis by blast
qed

theorem DeleteEvidence_soft_delete_witness:
  "docGet (st_evidence activeStore) (''acme'', ''e1'')
     = Some (exampleEvidence\<lparr>ev_Status := ''active'', ev_RequirementIDs := [''r1'']\<rparr>)
   \<and> distinct (map fst (st_evidence activeStore))
   \<and> (\<exists>s'. DeleteEvidence 1000 activeStore ''acme'' ''e1'' = Inr s'
        \<and> map_option ev_Status (docGet (st_evidence s') (''acme'', ''e1'')) = Some ''deleted''
        \<and> map_option ev_FileURL (docGet (st_evidence s') (''acme'', ''e1''))
            = Some ''acme/evidence/e1-ack.pdf''
        \<and> map_option rq_EvidenceCount (docGet (st_requirements s') (''acme'', ''r1'')) = Some 0
        \<and> ListEvidence s' ''acme'' [] = Inr [])"
proof -
  have ex: "docGet (st_evidence activeStore) (''acme'', ''e1'')
     = Some (exampleEvidence\<lparr>ev_Status := ''active'', ev_RequirementIDs := [''r1'']\<rparr>)"
    by (simp add: activeStore_def example_defs docGet_def)
  have d: "distinct (map fst (st_evidence activeStore))"
    by (simp add: activeStore_def example_defs)
  have r: "map_option rq_EvidenceCount (docGet (st_requirements activeStore) (''acme'', ''r1''))
           = Some 1"
    by (simp add: activeStore_def example_defs docGet_def)
  have ev: "st_evidence activeStore
            = [((''acme'', ''e1''),
                exampleEvidence\<lparr>ev_Status := ''active'', ev_RequirementIDs := [''r1'']\<rparr>)]"
    by (simp add: activeStore_def example_defs)
  from DeleteEvidence_soft_delete [OF ex, of 1000] obtain s' where
    s': "DeleteEvidence 1000 activeStore ''acme'' ''e1'' = Inr s'"
      "docGet (st_evidence s') (''acme'', ''e1'')
         = Some (exampleEvidence\<lparr>ev_Status := ''active'', ev_RequirementIDs := [''r1''],
                   ev_Status := ''deleted'', ev_UpdatedAt := 1000\<rparr>)"
      "map_option rq_EvidenceCount (docGet (st_requirements s') (''acme'', ''r1''))
         = map_option (\<lambda>c. c - (if fst (''acme'', ''r1'') = ''acme''
              then int (count_list (ev_RequirementIDs
                (exampleEvidence\<lparr>ev_Status := ''active'', ev_RequirementIDs := [''r1'']\<rparr>))
                  (snd (''acme'', ''r1''))) else 0))
             (map_option rq_EvidenceCount (docGet (st_requirements activeStore) (''acme'', ''r1'')))"
      "ListEvidence s' ''acme'' []
         = Inr (map snd (filter (\<lambda>kv. fst kv \<noteq> (''acme'', ''e1'') \<and> fst (fst kv) = ''acme''
                        \<and> ev_Status (snd kv) = ''active'' \<and> list_all (\<lambda>p. p (snd kv)) [])
                      (st_evidence activeStore)))"
    using d by blast
  have "map_option ev_Status (docGet (st_evidence s') (''acme'', ''e1'')) = Some ''deleted''"
    by (simp add: s'(2))
  moreover have "map_option ev_FileURL (docGet (st_evidence s') (''acme'', ''e1''))
            = Some ''acme/evidence/e1-ack.pdf''"
    by (simp add: s'(2) exampleEvidence_def)
  moreover have "map_option rq_EvidenceCount (docGet (st_requirements s') (''acme'', ''r1''))
                 = Some 0"
    by (simp add: s'(3) r)
  moreover have "ListEvidence s' ''acme'' [] = Inr []"
    by (simp add: s'(4) ev)
  ultimately show ?thesis using ex d s'(1) by blast
qed

text \<open>
  The example tenant after \<^verbatim>\<open>DELETE /evidence/e1\<close>: the record is kept with status
  deleted and the count of \<open>r1\<close> is back at 0.
\<close>

lemma handleDeleteEvidence_once:
  "fst (snd (handleDeleteEvidence exampleEnv ''e1'' activeStore (exampleCtx ''u1'' ''acme'')))
     = StatusOK
   \<and> st_evidence (fst (handleDeleteEvidence exampleEnv ''e1'' activeStore
                          (exampleCtx ''u1'' ''acme'')))
     = [((''acme'', ''e1''),
         exampleEvidence\<lparr>ev_Status := ''deleted'', ev_RequirementIDs := [''r1''],
                          ev_UpdatedAt := 1000\<rparr>)]
   \<and> st_requirements (fst (handleDeleteEvidence exampleEnv ''e1'' activeStore
                              (exampleCtx ''u1'' ''acme'')))
     = [((''acme'', ''r1''), exampleRequirement\<lparr>rq_EvidenceCount := 0, rq_UpdatedAt := 1000\<rparr>)]"
  by (simp add: handleDeleteEvidence_def activeStore_def example_defs store_defs api_defs Let_def)

text \<open>
  C9. \<^verbatim>\<open>DeleteEvidence\<close> succeeds on every stored evidence record, whatever its status,
  and takes from the count of each requirement of the tenant the number of times the
  record lists it. So a second \<^verbatim>\<open>DELETE\<close> of an item already deleted is answered 200
  and decrements again: in the example the count of \<open>r1\<close> goes from 0 to -1.
\<close>

theorem DeleteEvidence_not_idempotent:
  "(docGet (st_evidence s) (orgID, evidenceID) = Some e \<longrightarrow>
      \<not> isl (DeleteEvidence now s orgID evidenceID)
      \<and> (\<forall>k. map_option rq_EvidenceCount
                 (docGet (st_requirements (projr (DeleteEvidence now s orgID evidenceID))) k)
               = map_option
                   (\<lambda>c. c - (if fst k = orgID
                              then int (count_list (ev_RequirementIDs e) (snd k)) else 0))
                   (map_option rq_EvidenceCount (docGet (st_requirements s) k))))
   \<and> (\<exists>s0. map_option ev_Status (docGet (st_evidence s0) (''acme'', ''e1'')) = Some ''deleted''
          \<and> map_option rq_EvidenceCount (docGet (st_requirements s0) (''acme'', ''r1'')) = Some 0
          \<and> fst (snd (handleDeleteEvidence exampleEnv ''e1'' s0 (exampleCtx ''u1'' ''acme'')))
              = StatusOK
          \<and> map_option rq_EvidenceCount
               (docGet (st_requirements
                  (fst (handleDeleteEvidence exampleEnv ''e1'' s0 (exampleCtx ''u1'' ''acme''))))
                  (''acme'', ''r1''))
              = Some (- 1))"
proof (intro conjI impI allI)
  assume ex: "docGet (st_evidence s) (orgID, evidenceID) = Some e"
  show "\<not> isl (DeleteEvidence now s orgID evidenceID)"
    by (simp add: DeleteEvidence_result [OF ex])
  show "map_option rq_EvidenceCount
          (docGet (st_requirements (projr (DeleteEvidence now s orgID evidenceID))) k)
        = map_option
            (\<lambda>c. c - (if fst k = orgID
                       then int (count_list (ev_RequirementIDs e) (snd k)) else 0))
            (map_option rq_EvidenceCount (docGet (st_requirements s) k))" for k
    by (rule DeleteEvidence_counts [OF ex])
next
  define s0 where
    "s0 = fst (handleDeleteEvidence exampleEnv ''e1'' activeStore (exampleCtx ''u1'' ''acme''))"
  have ev: "st_evidence s0
     = [((''acme'', ''e1''),
         exampleEvidence\<lparr>ev_Status := ''deleted'', ev_RequirementIDs := [''r1''],
                          ev_UpdatedAt := 1000\<rparr>)]"
    and rq: "st_requirements s0
     = [((''acme'', ''r1''), exampleRequirement\<lparr>rq_EvidenceCount := 0, rq_UpdatedAt := 1000\<rparr>)]"
    using handleDeleteEvidence_once by (simp_all add: s0_def)
  have "map_option ev_Status (docGet (st_evidence s0) (''acme'', ''e1'')) = Some ''deleted''"
    by (simp add: ev docGet_def)
  moreover have
    "map_option rq_EvidenceCount (docGet (st_requirements s0) (''acme'', ''r1'')) = Some 0"
    by (simp add: rq docGet_def)
  moreover have
    "fst (snd (handleDeleteEvidence exampleEnv ''e1'' s0 (exampleCtx ''u1'' ''acme''))) = StatusOK
     \<and> map_option rq_EvidenceCount
          (docGet (st_requirements
             (fst (handleDeleteEvidence exampleEnv ''e1'' s0 (exampleCtx ''u1'' ''acme''))))
             (''acme'', ''r1''))
         = Some (- 1)"
    by (simp add: handleDeleteEvidence_def ev rq exampleEnv_def exampleCtx_def exampleClaims_def
          exampleEvidence_def exampleRequirement_def store_defs api_defs Let_def)
  ultimately show "\<exists>s0. map_option ev_Status (docGet (st_evidence s0) (''acme'', ''e1''))
            = Some ''deleted''
          \<and> map_option rq_EvidenceCount (docGet (st_requirements s0) (''acme'', ''r1'')) = Some 0
          \<and> fst (snd (handleDeleteEvidence exampleEnv ''e1'' s0 (exampleCtx ''u1'' ''acme'')))
              = StatusOK
          \<and> map_option rq_EvidenceCount
               (docGet (st_requirements
                  (fst (handleDeleteEvidence exampleEnv ''e1'' s0 (exampleCtx ''u1'' ''acme''))))
                  (''acme'', ''r1''))
              = Some (- 1)"
    by blast
qed

theorem DeleteEvidence_not_idempotent_witness:
  "docGet (st_evidence
       (projr (DeleteEvidence 1000 activeStore ''acme'' ''e1''))) (''acme'', ''e1'')
     = Some (exampleEvidence\<lparr>ev_Status := ''deleted'', ev_RequirementIDs := [''r1''],
                              ev_UpdatedAt := 1000\<rparr>)
   \<and> \<not> isl (DeleteEvidence 2000 (projr (DeleteEvidence 1000 activeStore ''acme'' ''e1''))
              ''acme'' ''e1'')
   \<and> map_option rq_EvidenceCount
        (docGet (st_requirements
           (projr (DeleteEvidence 2000 (projr (DeleteEvidence 1000 activeStore ''acme'' ''e1''))
                     ''acme'' ''e1''))) (''acme'', ''r1''))
       = Some (- 1)"
proof -
  define s1 where "s1 = projr (DeleteEvidence 1000 activeStore ''acme'' ''e1'')"
  have ev: "docGet (st_evidence s1) (''acme'', ''e1'')
     = Some (exampleEvidence\<lparr>ev_Status := ''deleted'', ev_RequirementIDs := [''r1''],
                              ev_UpdatedAt := 1000\<rparr>)"
    by (simp add: s1_def activeStore_def example_defs store_defs)
  have rq: "map_option rq_EvidenceCount (docGet (st_requirements s1) (''acme'', ''r1'')) = Some 0"
    by (simp add: s1_def activeStore_def example_defs store_defs)
  from DeleteEvidence_not_idempotent
         [of s1 "''acme''" "''e1''"
             "exampleEvidence\<lparr>ev_Status := ''deleted'', ev_RequirementIDs := [''r1''],
                               ev_UpdatedAt := 1000\<rparr>" 2000] ev
  have "\<not> isl (DeleteEvidence 2000 s1 ''acme'' ''e1'')"
    and "map_option rq_EvidenceCount
           (docGet (st_requirements (projr (DeleteEvidence 2000 s1 ''acme'' ''e1'')))
              (''acme'', ''r1''))
         = map_option (\<lambda>c. c - 1)
             (map_option rq_EvidenceCount (docGet (st_requirements s1) (''acme'', ''r1'')))"
    by (simp_all add: exampleEvidence_def)
  with ev rq show ?thesis by (simp add: s1_def)
qed

section \<open>Requirements: the update\<close>

text \<open>
  What \<^verbatim>\<open>handleUpdateRequirement\<close> stores on success: the requirement found, with the
  notes of the request, the caller as updater and the time of the write. No other field
  is assigned; the fields \<^verbatim>\<open>next_due_date\<close> and \<^verbatim>\<open>status\<close> of the request are not
  read.
\<close>

lemma handleUpdateRequirement_stores:
  assumes "ctx_claims ctx = Some claims" and "body = Some req"
    and "docGet (st_requirements s) (cl_OrganizationID claims, requirementID) = Some r"
    and "rq_OrganizationID r = cl_OrganizationID claims" and "rq_ID r = requirementID"
  shows "fst (snd (handleUpdateRequirement env requirementID body s ctx)) = StatusOK
    \<and> docGet (st_requirements (fst (handleUpdateRequirement env requirementID body s ctx)))
         (cl_OrganizationID claims, requirementID)
       = Some (r\<lparr>rq_Notes := urr_Notes req, rq_UpdatedBy := cl_UID claims,
                  rq_UpdatedAt := env_now env\<rparr>)"
  using assms
  by (simp add: handleUpdateRequirement_def store_defs api_defs Let_def update_conv')

text \<open>
  C7. The update of \<open>r1\<close> with notes and the due date 2026-12-31 is answered 200 and
  stores the notes, and the title, the category, the frequency and the evidence count are
  as before; but the stored next due date is still absent: the supplied due date is
  dropped.
\<close>

theorem handleUpdateRequirement_drops_due_date:
  "urr_NextDueDate updateRequirementRequest = Some ''2026-12-31T00:00:00Z''
   \<and> fst (snd (handleUpdateRequirement exampleEnv ''r1'' (Some updateRequirementRequest)
               exampleStore (exampleCtx ''u1'' ''acme''))) = StatusOK
   \<and> docGet (st_requirements
         (fst (handleUpdateRequirement exampleEnv ''r1'' (Some updateRequirementRequest)
                 exampleStore (exampleCtx ''u1'' ''acme'')))) (''acme'', ''r1'')
       = Some (exampleRequirement\<lparr>rq_Notes := ''reviewed'', rq_UpdatedBy := ''u1'',
                                   rq_UpdatedAt := 1000\<rparr>)
   \<and> rq_NextDueDate (exampleRequirement\<lparr>rq_Notes := ''reviewed'', rq_UpdatedBy := ''u1'',
                                          rq_UpdatedAt := 1000\<rparr>) = None"
  by (simp add: handleUpdateRequirement_def request_defs example_defs store_defs api_defs Let_def)

section \<open>Users: the seat limit\<close>

text \<open>
  What the limit check of \<^verbatim>\<open>handleInviteUser\<close> compares: the number of user records
  \<^verbatim>\<open>ListUsersByOrganization\<close> returns for the tenant, whatever their status, with
  \<^verbatim>\<open>max_users\<close>. With at least \<^verbatim>\<open>max_users\<close> records the invitation fails with 403 and
  a message that names the limit, in particular when that many users are active; with
  fewer it succeeds. The handler stores nothing.
\<close>

lemma handleInviteUser_limit_check:
  assumes "ctx_claims ctx = Some claims" and "body = Some req"
    and "docGet (st_organizations s) (cl_OrganizationID claims) = Some org"
    and "ListUsersByOrganization s (cl_OrganizationID claims) = Inr users"
  shows "fst (handleInviteUser body s ctx) = s
    \<and> (sb_MaxUsers (og_Subscription org) \<le> int (length users) \<longrightarrow>
         snd (handleInviteUser body s ctx)
         = (StatusForbidden,
            ErrorBody (''user limit reached. Please upgrade to add more users (current limit: ''
                       @ formatInt (sb_MaxUsers (og_Subscription org)) @ '')'')))
    \<and> (int (length users) < sb_MaxUsers (og_Subscription org) \<longrightarrow>
         snd (handleInviteUser body s ctx)
         = (StatusOK, MessageBody (''Invitation sent to '' @ iur_Email req)))
    \<and> (sb_MaxUsers (og_Subscription org)
          \<le> int (length (filter (\<lambda>u. us_Status u = ''active'') users)) \<longrightarrow>
         fst (snd (handleInviteUser body s ctx)) = StatusForbidden)"
proof -
  let ?max = "sb_MaxUsers (og_Subscription org)"
  have full: "snd (handleInviteUser body s ctx)
         = (StatusForbidden,
            ErrorBody (''user limit reached. Please upgrade to add more users (current limit: ''
                       @ formatInt ?max @ '')''))"
    if "?max \<le> int (length users)"
    using assms that by (simp add: handleInviteUser_def GetOrganization_def api_defs)
  have free: "snd (handleInviteUser body s ctx)
         = (StatusOK, MessageBody (''Invitation sent to '' @ iur_Email req))"
    if "int (length users) < ?max"
    using assms that by (simp add: handleInviteUser_def GetOrganization_def api_defs)
  have same: "fst (handleInviteUser body s ctx) = s"
    using assms by (simp add: handleInviteUser_def GetOrganization_def api_defs)
  have active: "fst (snd (handleInviteUser body s ctx)) = StatusForbidden"
    if "?max \<le> int (length (filter (\<lambda>u. us_Status u = ''active'') users))"
  proof -
    have "int (length (filter (\<lambda>u. us_Status u = ''active'') users)) \<le> int (length users)"
      by simp
    with that have "?max \<le> int (length users)" by (rule order_trans)
    then show ?thesis by (simp add: full)
  qed
  from full free same active show ?thesis by blast
qed

text \<open>
  C6. The tenant has a limit of 3 seats, two active users and the user \<open>u3\<close>, whom
  \<^verbatim>\<open>handleDeleteUser\<close> has left with the status inactive. The number of active users is
  below the limit, and yet the administrator's invitation is refused with 403 ``user limit
  reached'': the removed user still takes a seat.
\<close>

theorem handleInviteUser_counts_inactive_users:
  "map_option (\<lambda>org. sb_MaxUsers (og_Subscription org))
      (docGet (st_organizations seatStore) ''acme'') = Some 3
   \<and> map_option us_Status (docGet (st_users seatStore) ''u3'') = Some ''inactive''
   \<and> int (length (filter (\<lambda>kv. us_OrganizationID (snd kv) = ''acme''
                           \<and> us_Status (snd kv) = ''active'') (st_users seatStore))) = 2
   \<and> fst (snd (requireAdmin (handleInviteUser (Some inviteUserRequest)) seatStore
               (exampleCtx ''u1'' ''acme''))) = StatusForbidden
   \<and> routeInviteUser (Some inviteUserRequest) seatStore (exampleCtx ''u1'' ''acme'')
       = (seatStore, StatusForbidden,
          ErrorBody ''user limit reached. Please upgrade to add more users (current limit: 3)'')"
  by (simp add: handleInviteUser_def route_defs seatStore_def request_defs example_defs
        store_defs api_defs formatInt_def)

text \<open>
  How a user comes to be inactive: the deletion of \<open>u2\<close> keeps the record and sets its
  status, and the record is still among those the limit check counts.
\<close>

lemma handleDeleteUser_keeps_record:
  "map_option us_Status
     (docGet (st_users (fst (routeDeleteUser exampleEnv ''u2'' exampleStore
                               (exampleCtx ''u1'' ''acme'')))) ''u2'') = Some ''inactive''
   \<and> map_sum id length
        (ListUsersByOrganization
           (fst (routeDeleteUser exampleEnv ''u2'' exampleStore (exampleCtx ''u1'' ''acme'')))
           ''acme'')
       = map_sum id length (ListUsersByOrganization exampleStore ''acme'')"
  by (simp add: handleDeleteUser_def route_defs example_defs store_defs api_defs Let_def)

section \<open>Tenant isolation\<close>

text \<open>
  A handler that looks an entity up under the caller's organization answers 404 and
  leaves the store alone when the organization has no document under that id.
\<close>

lemma evidence_handlers_not_found:
  assumes "ctx_claims ctx = Some claims"
    and "docGet (st_evidence s) (cl_OrganizationID claims, evidenceID) = None"
  shows "handleGetEvidence env evidenceID s ctx
           = (s, StatusNotFound, ErrorBody ''evidence not found'')"
    and "handleUpdateEvidence env evidenceID (Some ureq) s ctx
           = (s, StatusNotFound, ErrorBody ''evidence not found'')"
    and "handleDeleteEvidence env evidenceID s ctx
           = (s, StatusNotFound, ErrorBody ''evidence not found'')"
    and "handleGenerateDownloadURL env evidenceID s ctx
           = (s, StatusNotFound, ErrorBody ''evidence not found'')"
    and "cer_EvidenceID creq = evidenceID \<Longrightarrow> cer_EvidenceDate creq = Some d \<Longrightarrow>
         handleCreateEvidence env (Some creq) s ctx
           = (s, StatusNotFound, ErrorBody ''evidence not found'')"
  using assms
  by (simp_all add: handleGetEvidence_def handleUpdateEvidence_def handleDeleteEvidence_def
        handleGenerateDownloadURL_def handleCreateEvidence_def GetEvidence_def api_defs)

lemma requirement_handlers_not_found:
  assumes "ctx_claims ctx = Some claims"
    and "docGet (st_requirements s) (cl_OrganizationID claims, requirementID) = None"
  shows "handleGetRequirement env requirementID s ctx
           = (s, StatusNotFound, ErrorBody ''requirement not found'')"
    and "handleUpdateRequirement env requirementID (Some rreq) s ctx
           = (s, StatusNotFound, ErrorBody ''requirement not found'')"
    and "handleDeactivateRequirement env requirementID s ctx
           = (s, StatusNotFound, ErrorBody ''requirement not found'')"
  using assms
  by (simp_all add: handleGetRequirement_def handleUpdateRequirement_def
        handleDeactivateRequirement_def GetRequirement_def api_defs)

lemma report_handlers_not_found:
  assumes "ctx_claims ctx = Some claims"
    and "docGet (st_reports s) (cl_OrganizationID claims, reportID) = None"
  shows "handleGetReport reportID s ctx = (s, StatusNotFound, ErrorBody ''report not found'')"
    and "handleGetReportDownloadURL env reportID s ctx
           = (s, StatusNotFound, ErrorBody ''report not found'')"
  using assms
  by (simp_all add: handleGetReport_def handleGetReportDownloadURL_def GetReport_def api_defs)

lemma user_handlers_forbidden:
  assumes "ctx_claims ctx = Some claims"
    and "docGet (st_users s) userID = Some u"
    and "us_OrganizationID u \<noteq> cl_OrganizationID claims"
  shows "handleUpdateUserRole env userID (Some role) s ctx
           = (s, StatusForbidden, ErrorBody ''user not in your organization'')"
    and "userID \<noteq> cl_UID claims \<Longrightarrow> handleDeleteUser env userID s ctx
           = (s, StatusForbidden, ErrorBody ''user not in your organization'')"
  using assms
  by (simp_all add: handleUpdateUserRole_def handleDeleteUser_def GetUser_def api_defs)

lemma docGet_delete_other: "k' \<noteq> k \<Longrightarrow> docGet (AList.delete k c) k' = docGet c k'"
  by (simp add: docGet_def)

text \<open>
  The same through the routes: the role gate of a write route comes before the look-up.
\<close>

lemma requirement_routes_not_found:
  assumes "ctx_claims ctx = Some claims" and "cl_OrganizationID claims \<noteq> ''''"
    and "docGet (st_requirements s) (cl_OrganizationID claims, requirementID) = None"
  shows "routeGetRequirement env requirementID s ctx
           = (s, StatusNotFound, ErrorBody ''requirement not found'')"
    and "routeUpdateRequirement env requirementID (Some rreq) s ctx
           = (s, if cl_Role claims = ''admin'' \<or> cl_Role claims = ''compliance_officer''
                 then (StatusNotFound, ErrorBody ''requirement not found'')
                 else (StatusForbidden, ErrorBody ''write permission required''))"
    and "routeDeactivateRequirement env requirementID s ctx
           = (s, if cl_Role claims = ''admin'' \<or> cl_Role claims = ''compliance_officer''
                 then (StatusNotFound, ErrorBody ''requirement not found'')
                 else (StatusForbidden, ErrorBody ''write permission required''))"
  using assms requirement_handlers_not_found [OF assms(1,3)]
  by (simp_all add: route_defs requireWrite_def respondError_def respondJSON_def)

lemma evidence_routes_not_found:
  assumes "ctx_claims ctx = Some claims" and "cl_OrganizationID claims \<noteq> ''''"
    and "docGet (st_evidence s) (cl_OrganizationID claims, evidenceID) = None"
  shows "routeGetEvidence env evidenceID s ctx
           = (s, StatusNotFound, ErrorBody ''evidence not found'')"
    and "routeGenerateDownloadURL env evidenceID s ctx
           = (s, StatusNotFound, ErrorBody ''evidence not found'')"
    and "routeUpdateEvidence env evidenceID (Some ureq) s ctx
           = (s, if cl_Role claims = ''admin'' \<or> cl_Role claims = ''compliance_officer''
                 then (StatusNotFound, ErrorBody ''evidence not found'')
                 else (StatusForbidden, ErrorBody ''write permission required''))"
    and "routeDeleteEvidence env evidenceID s ctx
           = (s, if cl_Role claims = ''admin'' \<or> cl_Role claims = ''compliance_officer''
                 then (StatusNotFound, ErrorBody ''evidence not found'')
                 else (StatusForbidden, ErrorBody ''write permission required''))"
    and "cer_EvidenceID creq = evidenceID \<Longrightarrow> cer_EvidenceDate creq = Some d \<Longrightarrow>
         routeCreateEvidence env (Some creq) s ctx
           = (s, if cl_Role claims = ''admin'' \<or> cl_Role claims = ''compliance_officer''
                 then (StatusNotFound, ErrorBody ''evidence not found'')
                 else (StatusForbidden, ErrorBody ''write permission required''))"
  using assms evidence_handlers_not_found [OF assms(1,3)]
  by (simp_all add: route_defs requireWrite_def respondError_def respondJSON_def)

lemma report_routes_not_found:
  assumes "ctx_claims ctx = Some claims" and "cl_OrganizationID claims \<noteq> ''''"
    and "docGet (st_reports s) (cl_OrganizationID claims, reportID) = None"
  shows "routeGetReport reportID s ctx = (s, StatusNotFound, ErrorBody ''report not found'')"
    and "routeGetReportDownloadURL env reportID s ctx
           = (s, StatusNotFound, ErrorBody ''report not found'')"
  using assms report_handlers_not_found [OF assms(1,3)]
  by (simp_all add: route_defs)

lemma user_routes_forbidden:
  assumes "ctx_claims ctx = Some claims" and "cl_OrganizationID claims \<noteq> ''''"
    and "docGet (st_users s) userID = Some u"
    and "us_OrganizationID u \<noteq> cl_OrganizationID claims"
  shows "routeUpdateUserRole env userID (Some role) s ctx
           = (s, StatusForbidden,
              ErrorBody (if cl_Role claims = ''admin'' then ''user not in your organization''
                         else ''admin role required''))"
    and "userID \<noteq> cl_UID claims \<Longrightarrow> routeDeleteUser env userID s ctx
           = (s, StatusForbidden,
              ErrorBody (if cl_Role claims = ''admin'' then ''user not in your organization''
                         else ''admin role required''))"
  using assms user_handlers_forbidden [OF assms(1,3,4)]
  by (simp_all add: route_defs requireAdmin_def respondError_def respondJSON_def)

text \<open>
  C3, as stated, fails for users: an administrator of ``globex'' who changes the role of
  \<open>u2\<close>, a user of ``acme'', gets 403 ``user not in your organization'', not a
  not-found result, and for a user id that does not exist the answer is 404: the two
  cases can be told apart.
\<close>

theorem cross_tenant_access_counterexample:
  "map_option us_OrganizationID (docGet (st_users exampleStore) ''u2'') = Some ''acme''
   \<and> docGet (st_users exampleStore) ''u404'' = None
   \<and> snd (routeUpdateUserRole exampleEnv ''u2'' (Some ''admin'') exampleStore
            (exampleCtx ''u9'' ''globex''))
       = (StatusForbidden, ErrorBody ''user not in your organization'')
   \<and> snd (routeUpdateUserRole exampleEnv ''u404'' (Some ''admin'') exampleStore
            (exampleCtx ''u9'' ''globex''))
       = (StatusNotFound, ErrorBody ''user not found'')"
  by (simp add: handleUpdateUserRole_def route_defs example_defs store_defs api_defs)

text \<open>
  C3, amended. Let a request carry the claims of tenant \<open>B\<close> and let \<open>A \<noteq> B\<close>. For a
  requirement, an evidence item or a report stored under \<open>A\<close> with an id under which
  \<open>B\<close> has no document, and a request body that decodes: every route that reads one
  entity by id answers 404 not found, whatever the caller's role; every route that
  writes one answers 404 not found when the caller's role is admin or compliance_officer
  and 403 ``write permission required'' otherwise. In each case the store is unchanged and
  the answer is the one given in the store from which the entity of \<open>A\<close> is gone. For a
  user of \<open>A\<close>, the role change and the deletion change nothing and answer 403: ``user
  not in your organization'' to an admin, ``admin role required'' to any other role.
\<close>

theorem cross_tenant_access:
  assumes "ctx_claims ctx = Some claims" and "cl_OrganizationID claims = B"
    and "A \<noteq> B" and "B \<noteq> ''''"
  shows
   "(docGet (st_requirements s) (A, i) = Some r \<and> docGet (st_requirements s) (B, i) = None \<longrightarrow>
       routeGetRequirement env i s ctx = (s, StatusNotFound, ErrorBody ''requirement not found'')
       \<and> (\<forall>h \<in> set [routeUpdateRequirement env i (Some rreq), routeDeactivateRequirement env i].
            h s ctx
            = (s, if cl_Role claims = ''admin'' \<or> cl_Role claims = ''compliance_officer''
                  then (StatusNotFound, ErrorBody ''requirement not found'')
                  else (StatusForbidden, ErrorBody ''write permission required'')))
       \<and> (\<forall>h \<in> set [routeGetRequirement env i, routeUpdateRequirement env i (Some rreq),
                       routeDeactivateRequirement env i].
            snd (h (s\<lparr>st_requirements := AList.delete (A, i) (st_requirements s)\<rparr>) ctx)
            = snd (h s ctx)))
    \<and> (docGet (st_evidence s) (A, i) = Some e \<and> docGet (st_evidence s) (B, i) = None
        \<and> cer_EvidenceID creq = i \<and> cer_EvidenceDate creq = Some d \<longrightarrow>
       (\<forall>h \<in> set [routeGetEvidence env i, routeGenerateDownloadURL env i].
            h s ctx = (s, StatusNotFound, ErrorBody ''evidence not found''))
       \<and> (\<forall>h \<in> set [routeUpdateEvidence env i (Some ureq), routeDeleteEvidence env i,
                       routeCreateEvidence env (Some creq)].
            h s ctx
            = (s, if cl_Role claims = ''admin'' \<or> cl_Role claims = ''compliance_officer''
                  then (StatusNotFound, ErrorBody ''evidence not found'')
                  else (StatusForbidden, ErrorBody ''write permission required'')))
       \<and> (\<forall>h \<in> set [routeGetEvidence env i, routeGenerateDownloadURL env i,
                       routeUpdateEvidence env i (Some ureq), routeDeleteEvidence env i,
                       routeCreateEvidence env (Some creq)].
            snd (h (s\<lparr>st_evidence := AList.delete (A, i) (st_evidence s)\<rparr>) ctx)
            = snd (h s ctx)))
    \<and> (docGet (st_reports s) (A, i) = Some p \<and> docGet (st_reports s) (B, i) = None \<longrightarrow>
       (\<forall>h \<in> set [routeGetReport i, routeGetReportDownloadURL env i].
          h s ctx = (s, StatusNotFound, ErrorBody ''report not found'')
          \<and> snd (h (s\<lparr>st_reports := AList.delete (A, i) (st_reports s)\<rparr>) ctx)
              = snd (h s ctx)))
    \<and> (docGet (st_users s) i = Some u \<and> us_OrganizationID u = A \<and> i \<noteq> cl_UID claims \<longrightarrow>
       (\<forall>h \<in> set [routeUpdateUserRole env i (Some role), routeDeleteUser env i].
          h s ctx
          = (s, StatusForbidden,
             ErrorBody (if cl_Role claims = ''admin'' then ''user not in your organization''
                        else ''admin role required''))))"
proof (intro conjI impI)
  have org: "cl_OrganizationID claims \<noteq> ''''" using assms(2,4) by simp
  {
    assume h: "docGet (st_requirements s) (A, i) = Some r
               \<and> docGet (st_requirements s) (B, i) = None"
    let ?s0 = "s\<lparr>st_requirements := AList.delete (A, i) (st_requirements s)\<rparr>"
    have n: "docGet (st_requirements s) (cl_OrganizationID claims, i) = None"
      using h assms(2) by simp
    have n0: "docGet (st_requirements ?s0) (cl_OrganizationID claims, i) = None"
      using n assms(2,3) by (simp add: docGet_delete_other)
    note a = requirement_routes_not_found [OF assms(1) org n]
    note b = requirement_routes_not_found [OF assms(1) org n0]
    show "routeGetRequirement env i s ctx
            = (s, StatusNotFound, ErrorBody ''requirement not found'')"
      by (rule a(1))
    show "\<forall>h \<in> set [routeUpdateRequirement env i (Some rreq), routeDeactivateRequirement env i].
            h s ctx
            = (s, if cl_Role claims = ''admin'' \<or> cl_Role claims = ''compliance_officer''
                  then (StatusNotFound, ErrorBody ''requirement not found'')
                  else (StatusForbidden, ErrorBody ''write permission required''))"
      by (simp add: a(2,3))
    show "\<forall>h \<in> set [routeGetRequirement env i, routeUpdateRequirement env i (Some rreq),
                       routeDeactivateRequirement env i].
            snd (h ?s0 ctx) = snd (h s ctx)"
      by (simp add: a b)
  }
  {
    assume h: "docGet (st_evidence s) (A, i) = Some e \<and> docGet (st_evidence s) (B, i) = None
        \<and> cer_EvidenceID creq = i \<and> cer_EvidenceDate creq = Some d"
    let ?s0 = "s\<lparr>st_evidence := AList.delete (A, i) (st_evidence s)\<rparr>"
    have n: "docGet (st_evidence s) (cl_OrganizationID claims, i) = None"
      using h assms(2) by simp
    have n0: "docGet (st_evidence ?s0) (cl_OrganizationID claims, i) = None"
      using n assms(2,3) by (simp add: docGet_delete_other)
    from h have c: "cer_EvidenceID creq = i" "cer_EvidenceDate creq = Some d" by simp_all
    note a = evidence_routes_not_found(1-4) [OF assms(1) org n]
             evidence_routes_not_found(5) [OF assms(1) org n c]
    note b = evidence_routes_not_found(1-4) [OF assms(1) org n0]
             evidence_routes_not_found(5) [OF assms(1) org n0 c]
    show "\<forall>h \<in> set [routeGetEvidence env i, routeGenerateDownloadURL env i].
            h s ctx = (s, StatusNotFound, ErrorBody ''evidence not found'')"
      by (simp add: a)
    show "\<forall>h \<in> set [routeUpdateEvidence env i (Some ureq), routeDeleteEvidence env i,
                       routeCreateEvidence env (Some creq)].
            h s ctx
            = (s, if cl_Role claims = ''admin'' \<or> cl_Role claims = ''compliance_officer''
                  then (StatusNotFound, ErrorBody ''evidence not found'')
                  else (StatusForbidden, ErrorBody ''write permission required''))"
      by (simp add: a)
    show "\<forall>h \<in> set [routeGetEvidence env i, routeGenerateDownloadURL env i,
                       routeUpdateEvidence env i (Some ureq), routeDeleteEvidence env i,
                       routeCreateEvidence env (Some creq)].
            snd (h ?s0 ctx) = snd (h s ctx)"
      by (simp add: a b)
  }
  {
    assume h: "docGet (st_reports s) (A, i) = Some p \<and> docGet (st_reports s) (B, i) = None"
    let ?s0 = "s\<lparr>st_reports := AList.delete (A, i) (st_reports s)\<rparr>"
    have n: "docGet (st_reports s) (cl_OrganizationID claims, i) = None"
      using h assms(2) by simp
    have n0: "docGet (st_reports ?s0) (cl_OrganizationID claims, i) = None"
      using n assms(2,3) by (simp add: docGet_delete_other)
    show "\<forall>h \<in> set [routeGetReport i, routeGetReportDownloadURL env i].
          h s ctx = (s, StatusNotFound, ErrorBody ''report not found'')
          \<and> snd (h ?s0 ctx) = snd (h s ctx)"
      using report_routes_not_found [OF assms(1) org n]
            report_routes_not_found [OF assms(1) org n0]
      by simp
  }
  {
    assume h: "docGet (st_users s) i = Some u \<and> us_OrganizationID u = A \<and> i \<noteq> cl_UID claims"
    then have u: "docGet (st_users s) i = Some u"
      and o: "us_OrganizationID u \<noteq> cl_OrganizationID claims"
      and me: "i \<noteq> cl_UID claims"
      using assms(2,3) by simp_all
    show "\<forall>h \<in> set [routeUpdateUserRole env i (Some role), routeDeleteUser env i].
          h s ctx
          = (s, StatusForbidden,
             ErrorBody (if cl_Role claims = ''admin'' then ''user not in your organization''
                        else ''admin role required''))"
      using user_routes_forbidden(1) [OF assms(1) org u o]
            user_routes_forbidden(2) [OF assms(1) org u o me]
      by simp
  }
qed


theorem cross_tenant_access_witness:
  "routeGetRequirement exampleEnv ''r1'' exampleStore (viewerCtx ''u9'' ''globex'')
     = (exampleStore, StatusNotFound, ErrorBody ''requirement not found'')
   \<and> routeUpdateRequirement exampleEnv ''r1'' (Some updateRequirementRequest) exampleStore
        (exampleCtx ''u9'' ''globex'')
     = (exampleStore, StatusNotFound, ErrorBody ''requirement not found'')
   \<and> routeUpdateRequirement exampleEnv ''r1'' (Some updateRequirementRequest) exampleStore
        (viewerCtx ''u9'' ''globex'')
     = (exampleStore, StatusForbidden, ErrorBody ''write permission required'')
   \<and> routeCreateEvidence exampleEnv (Some completeUploadRequest) exampleStore
        (exampleCtx ''u9'' ''globex'')
     = (exampleStore, StatusNotFound, ErrorBody ''evidence not found'')
   \<and> routeDeleteEvidence exampleEnv ''e1'' exampleStore (exampleCtx ''u9'' ''globex'')
     = (exampleStore, StatusNotFound, ErrorBody ''evidence not found'')
   \<and> routeDeleteEvidence exampleEnv ''e1'' exampleStore (viewerCtx ''u9'' ''globex'')
     = (exampleStore, StatusForbidden, ErrorBody ''write permission required'')
   \<and> routeGetEvidence exampleEnv ''e1'' exampleStore (viewerCtx ''u9'' ''globex'')
     = (exampleStore, StatusNotFound, ErrorBody ''evidence not found'')
   \<and> routeGetReport ''p1'' exampleStore (viewerCtx ''u9'' ''globex'')
     = (exampleStore, StatusNotFound, ErrorBody ''report not found'')
   \<and> routeDeleteUser exampleEnv ''u2'' exampleStore (exampleCtx ''u9'' ''globex'')
     = (exampleStore, StatusForbidden, ErrorBody ''user not in your organization'')
   \<and> routeDeleteUser exampleEnv ''u2'' exampleStore (viewerCtx ''u9'' ''globex'')
     = (exampleStore, StatusForbidden, ErrorBody ''admin role required'')"
proof -
  let ?admin = "exampleClaims ''u9'' ''globex''"
  let ?viewer = "(exampleClaims ''u9'' ''globex'')\<lparr>cl_Role := ''viewer''\<rparr>"
  have ca: "ctx_claims (exampleCtx ''u9'' ''globex'') = Some ?admin"
    by (simp add: exampleCtx_def)
  have cv: "ctx_claims (viewerCtx ''u9'' ''globex'') = Some ?viewer"
    by (simp add: viewerCtx_def)
  have ba: "cl_OrganizationID ?admin = ''globex''" and bv: "cl_OrganizationID ?viewer = ''globex''"
    by (simp_all add: exampleClaims_def)
  have ra: "cl_Role ?admin = ''admin''" and rv: "cl_Role ?viewer = ''viewer''"
    by (simp_all add: exampleClaims_def)
  have ab: "''acme'' \<noteq> ''globex''" and b0: "''globex'' \<noteq> ''''" by simp_all
  have rq: "docGet (st_requirements exampleStore) (''acme'', ''r1'') = Some exampleRequirement
            \<and> docGet (st_requirements exampleStore) (''globex'', ''r1'') = None"
    and ev: "docGet (st_evidence exampleStore) (''acme'', ''e1'') = Some exampleEvidence
            \<and> docGet (st_evidence exampleStore) (''globex'', ''e1'') = None
            \<and> cer_EvidenceID completeUploadRequest = ''e1''
            \<and> cer_EvidenceDate completeUploadRequest = Some 500"
    and rp: "docGet (st_reports exampleStore) (''acme'', ''p1'') = Some exampleReport
            \<and> docGet (st_reports exampleStore) (''globex'', ''p1'') = None"
    and us: "docGet (st_users exampleStore) ''u2''
               = Some (exampleUser ''u2'' ''acme'' ''viewer'' ''active'')
            \<and> us_OrganizationID (exampleUser ''u2'' ''acme'' ''viewer'' ''active'') = ''acme''
            \<and> ''u2'' \<noteq> cl_UID ?admin \<and> ''u2'' \<noteq> cl_UID ?viewer"
    by (simp_all add: exampleStore_def exampleUser_def exampleClaims_def
          completeUploadRequest_def docGet_def)
  note ta = cross_tenant_access [OF ca ba ab b0, where s = exampleStore and env = exampleEnv]
  note tv = cross_tenant_access [OF cv bv ab b0, where s = exampleStore and env = exampleEnv]
  from tv [where i = "''r1''" and r = exampleRequirement and rreq = updateRequirementRequest] rq rv
  have 1: "routeGetRequirement exampleEnv ''r1'' exampleStore (viewerCtx ''u9'' ''globex'')
             = (exampleStore, StatusNotFound, ErrorBody ''requirement not found'')"
    and 3: "routeUpdateRequirement exampleEnv ''r1'' (Some updateRequirementRequest) exampleStore
              (viewerCtx ''u9'' ''globex'')
             = (exampleStore, StatusForbidden, ErrorBody ''write permission required'')"
    by simp_all
  from ta [where i = "''r1''" and r = exampleRequirement and rreq = updateRequirementRequest] rq ra
  have 2: "routeUpdateRequirement exampleEnv ''r1'' (Some updateRequirementRequest) exampleStore
              (exampleCtx ''u9'' ''globex'')
             = (exampleStore, StatusNotFound, ErrorBody ''requirement not found'')"
    by simp
  from ta [where i = "''e1''" and e = exampleEvidence and creq = completeUploadRequest
             and d = 500] ev ra
  have 4: "routeCreateEvidence exampleEnv (Some completeUploadRequest) exampleStore
             (exampleCtx ''u9'' ''globex'')
            = (exampleStore, StatusNotFound, ErrorBody ''evidence not found'')"
    and 5: "routeDeleteEvidence exampleEnv ''e1'' exampleStore (exampleCtx ''u9'' ''globex'')
            = (exampleStore, StatusNotFound, ErrorBody ''evidence not found'')"
    by simp_all
  from tv [where i = "''e1''" and e = exampleEvidence and creq = completeUploadRequest
             and d = 500] ev rv
  have 6: "routeDeleteEvidence exampleEnv ''e1'' exampleStore (viewerCtx ''u9'' ''globex'')
            = (exampleStore, StatusForbidden, ErrorBody ''write permission required'')"
    and 7: "routeGetEvidence exampleEnv ''e1'' exampleStore (viewerCtx ''u9'' ''globex'')
            = (exampleStore, StatusNotFound, ErrorBody ''evidence not found'')"
    by simp_all
  from tv [where i = "''p1''" and p = exampleReport] rp
  have 8: "routeGetReport ''p1'' exampleStore (viewerCtx ''u9'' ''globex'')
            = (exampleStore, StatusNotFound, ErrorBody ''report not found'')"
    by simp
  from ta [where i = "''u2''" and u = "exampleUser ''u2'' ''acme'' ''viewer'' ''active''"] us ra
  have 9: "routeDeleteUser exampleEnv ''u2'' exampleStore (exampleCtx ''u9'' ''globex'')
            = (exampleStore, StatusForbidden, ErrorBody ''user not in your organization'')"
    by simp
  from tv [where i = "''u2''" and u = "exampleUser ''u2'' ''acme'' ''viewer'' ''active''"] us rv
  have 10: "routeDeleteUser exampleEnv ''u2'' exampleStore (viewerCtx ''u9'' ''globex'')
            = (exampleStore, StatusForbidden, ErrorBody ''admin role required'')"
    by simp
  from 1 2 3 4 5 6 7 8 9 10 show ?thesis by blast
qed

section \<open>The audit trail\<close>

text \<open>
  The handlers that change a requirement, an evidence item, the organization or create a
  report write one audit entry with their action and resource type whenever they answer
  with success.
\<close>

lemma writesOneAuditEntryI:
  "st_audit_logs s' = AList.update (orgID, env_log_uuid env) entry (st_audit_logs s) \<Longrightarrow>
   al_Action entry = action \<Longrightarrow> al_ResourceType entry = resourceType \<Longrightarrow>
   al_Timestamp entry = env_now env \<Longrightarrow> al_ID entry = env_log_uuid env \<Longrightarrow>
   al_OrganizationID entry = orgID \<Longrightarrow>
   writesOneAuditEntry env s (s', resp) action resourceType"
  by (auto simp: writesOneAuditEntry_def docSet_def)

text \<open>When the identifier is new, the collection has grown by exactly that one document.\<close>

lemma writesOneAuditEntry_length:
  assumes "writesOneAuditEntry env s res action resourceType"
    and "\<And>orgID. (orgID, env_log_uuid env) \<notin> fst ` set (st_audit_logs s)"
  shows "length (st_audit_logs (fst res)) = Suc (length (st_audit_logs s))"
proof -
  from assms(1) obtain orgID entry where
    "st_audit_logs (fst res)
       = AList.update (orgID, env_log_uuid env) entry (st_audit_logs s)"
    by (auto simp: writesOneAuditEntry_def docSet_def)
  then have "map fst (st_audit_logs (fst res))
             = map fst (st_audit_logs s) @ [(orgID, env_log_uuid env)]"
    using assms(2) [of orgID] by (simp add: update_keys)
  then have "length (map fst (st_audit_logs (fst res)))
             = length (map fst (st_audit_logs s) @ [(orgID, env_log_uuid env)])"
    by simp
  then show ?thesis by simp
qed

lemma DeleteEvidence_audit_logs:
  "DeleteEvidence now s orgID evidenceID = Inr s' \<Longrightarrow> st_audit_logs s' = st_audit_logs s"
  by (auto simp: DeleteEvidence_def GetEvidence_def docGet_def docUpdate_def decrementEach_frame
           split: option.splits)

lemma audited_handlers:
  "fst (snd (handleUpdateOrganization env obody s ctx)) = StatusOK \<Longrightarrow>
     writesOneAuditEntry env s (handleUpdateOrganization env obody s ctx) ActionOrgUpdated ''organization''"
  "fst (snd (handleCreateRequirement env cbody s ctx)) = StatusCreated \<Longrightarrow>
     writesOneAuditEntry env s (handleCreateRequirement env cbody s ctx) ActionRequirementActivated ''requirement''"
  "fst (snd (handleUpdateRequirement env i rbody s ctx)) = StatusOK \<Longrightarrow>
     writesOneAuditEntry env s (handleUpdateRequirement env i rbody s ctx) ActionRequirementUpdated ''requirement''"
  "fst (snd (handleDeactivateRequirement env i s ctx)) = StatusOK \<Longrightarrow>
     writesOneAuditEntry env s (handleDeactivateRequirement env i s ctx) ActionRequirementDeactivated ''requirement''"
  "fst (snd (handleCreateEvidence env ebody s ctx)) = StatusCreated \<Longrightarrow>
     writesOneAuditEntry env s (handleCreateEvidence env ebody s ctx) ActionEvidenceCreated ''evidence''"
  "fst (snd (handleUpdateEvidence env i ubody s ctx)) = StatusOK \<Longrightarrow>
     writesOneAuditEntry env s (handleUpdateEvidence env i ubody s ctx) ActionEvidenceUpdated ''evidence''"
  "fst (snd (handleGenerateReport env gbody s ctx)) = StatusAccepted \<Longrightarrow>
     writesOneAuditEntry env s (handleGenerateReport env gbody s ctx) ActionReportGenerated ''report''"
  by (auto simp: handleUpdateOrganization_def handleCreateRequirement_def
        handleUpdateRequirement_def handleDeactivateRequirement_def handleCreateEvidence_def
        handleUpdateEvidence_def handleGenerateReport_def
        store_defs api_defs Let_def split: option.splits sum.splits if_splits intro!: writesOneAuditEntryI)

lemma audited_delete:
  assumes ok: "fst (snd (handleDeleteEvidence env i s ctx)) = StatusOK"
  shows "writesOneAuditEntry env s (handleDeleteEvidence env i s ctx) ActionEvidenceDeleted ''evidence''"
proof -
  from ok obtain claims where c: "ctx_claims ctx = Some claims"
    by (cases "ctx_claims ctx") (simp_all add: handleDeleteEvidence_def api_defs)
  from ok c obtain e where e: "docGet (st_evidence s) (cl_OrganizationID claims, i) = Some e"
    by (cases "docGet (st_evidence s) (cl_OrganizationID claims, i)")
       (simp_all add: handleDeleteEvidence_def GetEvidence_def api_defs)
  show ?thesis
    using c e
    by (auto simp: handleDeleteEvidence_def GetEvidence_def DeleteEvidence_result [OF e]
          CreateAuditLog_def docSet_def api_defs Let_def decrementEach_frame
          intro!: writesOneAuditEntryI)
qed

text \<open>
  The role change, the user deletion and the profile update never touch the audit logs,
  though the actions \<open>ActionUserUpdated\<close> and \<open>ActionUserDeleted\<close> are declared for them.
\<close>

lemma unaudited_handlers:
  "st_audit_logs (fst (handleUpdateUserRole env userID rbody s ctx)) = st_audit_logs s"
  "st_audit_logs (fst (handleDeleteUser env userID s ctx)) = st_audit_logs s"
  "st_audit_logs (fst (handleUpdateProfile env pbody s ctx)) = st_audit_logs s"
  by (simp_all add: handleUpdateUserRole_def handleDeleteUser_def handleUpdateProfile_def
        store_defs api_defs Let_def split: option.splits sum.splits)

text \<open>
  C4. In the example tenant the administrator \<open>u1\<close> changes the role of \<open>u2\<close>, deletes
  \<open>u2\<close> and updates the own profile. Each request is answered 200 and changes the stored
  user, and after each the collection of audit logs is as empty as before: these three
  state-changing operations produce no audit entry.
\<close>

theorem user_changes_write_no_audit_entry:
  "st_audit_logs exampleStore = []
   \<and> fst (snd (requireAdmin (handleUpdateUserRole exampleEnv ''u2'' (Some ''compliance_officer''))
               exampleStore (exampleCtx ''u1'' ''acme''))) = StatusOK
   \<and> map_option us_Role
        (docGet (st_users (fst (requireAdmin
           (handleUpdateUserRole exampleEnv ''u2'' (Some ''compliance_officer''))
           exampleStore (exampleCtx ''u1'' ''acme'')))) ''u2'') = Some ''compliance_officer''
   \<and> st_audit_logs (fst (requireAdmin
          (handleUpdateUserRole exampleEnv ''u2'' (Some ''compliance_officer''))
          exampleStore (exampleCtx ''u1'' ''acme''))) = []
   \<and> fst (snd (requireAdmin (handleDeleteUser exampleEnv ''u2'')
               exampleStore (exampleCtx ''u1'' ''acme''))) = StatusOK
   \<and> map_option us_Status
        (docGet (st_users (fst (requireAdmin (handleDeleteUser exampleEnv ''u2'')
           exampleStore (exampleCtx ''u1'' ''acme'')))) ''u2'') = Some ''inactive''
   \<and> st_audit_logs (fst (requireAdmin (handleDeleteUser exampleEnv ''u2'')
          exampleStore (exampleCtx ''u1'' ''acme''))) = []
   \<and> fst (snd (handleUpdateProfile exampleEnv (Some ''Ursula One'')
               exampleStore (exampleCtx ''u1'' ''acme''))) = StatusOK
   \<and> map_option us_FullName
        (docGet (st_users (fst (handleUpdateProfile exampleEnv (Some ''Ursula One'')
           exampleStore (exampleCtx ''u1'' ''acme'')))) ''u1'') = Some ''Ursula One''
   \<and> st_audit_logs (fst (handleUpdateProfile exampleEnv (Some ''Ursula One'')
          exampleStore (exampleCtx ''u1'' ''acme''))) = []"
  by (simp add: handleUpdateUserRole_def handleDeleteUser_def handleUpdateProfile_def
        example_defs store_defs api_defs Let_def)

end
